theory Spec2Isabelle
  imports Main "HOL-Library.AList"
begin

section \<open>Data model\<close>

text \<open>
  The development embeds \<^verbatim>\<open>src/core/mutationCache.ts\<close> (class MutationCache) and the
  MutationObserver class. JavaScript objects live in explicit stores: a Mutation is an
  index into \<open>heap\<close>, a MutationObserver an index into \<open>observer_heap\<close>, so that object
  identity (\<^verbatim>\<open>===\<close>, \<^verbatim>\<open>!==\<close>) is equality of indices and two holders of one
  Mutation see each other's updates.

  User supplied functions (cache listeners, observer listeners, the call-scoped
  callbacks) are opaque: calling one appends an event to \<open>trace\<close> and has no other
  effect on the world. \<^verbatim>\<open>find\<close> and \<^verbatim>\<open>findAll\<close> of the cache rest on
  \<^verbatim>\<open>matchMutation\<close> of utils and are not part of the development.
\<close>

type_synonym ref = nat
type_synonym oid = nat
type_synonym lid = nat

datatype jsval = Undefined | Null | Val nat

datatype mutation_key = KeyString string | KeyArray "string list"

datatype mutation_status = Idle | Loading | Success | Error

datatype js_error = ShareableChanged | MutationKeyRequired | TypeError

datatype 'a outcome = Threw js_error | Returned 'a

datatype settled = Resolved | Rejected

text \<open>
  What reading a property of the cache's dictionary can give: \<^verbatim>\<open>undefined\<close>, a Mutation,
  \<^verbatim>\<open>null\<close>, or any other value that is not a Mutation (\<^verbatim>\<open>Object.prototype\<close> itself or one
  of its members, or a property of a Mutation that has become the dictionary's
  prototype).
\<close>

datatype lookup = Missing | Found ref | Null_found | Foreign

text \<open>What a Mutation object has under a property name, \<^verbatim>\<open>Object.prototype\<close> aside: no
  such property, or a property whose value is \<^verbatim>\<open>undefined\<close>, \<^verbatim>\<open>null\<close>, or something else,
  which is not a Mutation and has no \<^verbatim>\<open>addObserver\<close> method.\<close>

datatype property = NoProperty | Undefined_value | Null_value | Other_value

text \<open>MutationOptions: the fields the two classes read. An absent field is \<open>None\<close>
  (for \<open>variables\<close>: \<open>Undefined\<close>).\<close>

record mutation_options =
  shareable :: "bool option"
  mutationKey :: "mutation_key option"
  variables :: jsval

record mutation_state =
  status :: mutation_status
  isPaused :: bool
  data :: jsval
  error :: jsval
  state_variables :: jsval
  state_context :: jsval

text \<open>MutationObserverResult: the state spread, four flags and the two bound methods
  (identified by the observer they are bound to).\<close>

record mutation_observer_result = mutation_state +
  isLoading :: bool
  isSuccess :: bool
  isError :: bool
  isIdle :: bool
  mutate_fn :: oid
  reset_fn :: oid

record mutation =
  mutationId :: nat
  mutationHash :: "string option"
  options_m :: mutation_options
  state :: mutation_state
  defaultOptions :: "mutation_options option"
  observers_m :: "oid list"

text \<open>MutateOptions: which of the three call-scoped callbacks are present.\<close>

record mutate_options =
  onSuccess :: bool
  onError :: bool
  onSettled :: bool

record notify_options =
  listeners_n :: bool
  onError_n :: bool
  onSuccess_n :: bool

record mutation_observer =
  options :: "mutation_options option"
  currentResult :: mutation_observer_result
  currentMutation :: "ref option"
  mutateOptions :: "mutate_options option"
  listeners :: "lid list"

text \<open>
  MutationCache. \<^verbatim>\<open>this.mutationsMap\<close> is a plain object (\<^verbatim>\<open>{}\<close>) used as a dictionary:
  \<open>mutationsMap\<close> holds its own properties as an association list, and
  \<open>mutationsMap_proto\<close> its prototype: \<open>None\<close> while that is \<^verbatim>\<open>Object.prototype\<close>, as it is
  from the start, and \<open>Some m\<close> once an assignment to the property \<^verbatim>\<open>__proto__\<close> has made
  the Mutation \<open>m\<close> the prototype. \<open>mutationId_c\<close> is the cache's counter
  \<^verbatim>\<open>this.mutationId\<close>, a JavaScript number, exact below \<open>2^53\<close>.
\<close>

record mutation_cache =
  mutations :: "ref list"
  mutationsMap :: "(string \<times> ref) list"
  mutationId_c :: nat
  listeners_c :: "lid list"
  mutationsMap_proto :: "ref option"

text \<open>The trace: calls of the user's functions with their arguments, and calls of a
  Mutation's methods. \<open>CancelProbe\<close> is written by \<open>cancel_probe\<close> below only.\<close>

datatype event =
    CacheListener lid "ref option"
  | ObserverListener oid lid mutation_observer_result
  | CallOnSuccess oid jsval jsval jsval
  | CallOnError oid jsval jsval jsval
  | CallOnSettled oid jsval jsval jsval jsval
  | CancelCall ref
  | CancelProbe ref bool bool
  | ContinueCall ref
  | ContinueSettled ref settled
  | ExecuteCall ref

record world =
  cache :: mutation_cache
  heap :: "mutation list"
  observer_heap :: "mutation_observer list"
  transactions :: nat
  flushes :: nat
  trace :: "event list"

text \<open>Collaborators whose code is outside the two files are parameters:
  \<^verbatim>\<open>hashMutationKeyByOptions\<close> of utils, \<^verbatim>\<open>defaultMutationOptions\<close> and
  \<^verbatim>\<open>getMutationDefaults\<close> of QueryClient, the outcome of a Mutation's resumed
  attempt, and what a Mutation object has under a property name (its own fields and the
  members of class Mutation).\<close>

record env =
  hashMutationKeyByOptions :: "mutation_key \<Rightarrow> mutation_options \<Rightarrow> string"
  defaultMutationOptions :: "mutation_options option \<Rightarrow> mutation_options"
  getMutationDefaults :: "mutation_key \<Rightarrow> mutation_options option"
  continueRejects :: "ref \<Rightarrow> bool"
  mutationProperty :: "mutation \<Rightarrow> string \<Rightarrow> property"

text \<open>
  How a call on an observer ends. \<open>Ended\<close>: it returned or threw, and this is the world
  then. \<open>Escaped\<close>: it threw with \<^verbatim>\<open>this.currentMutation\<close> holding a value that is not a
  Mutation; the field's declared type, \<^verbatim>\<open>Mutation | undefined\<close>, excludes that, the
  observer record has no such state, and the development does not follow the program
  further.
\<close>

datatype 'a ending = Ended "'a outcome" world | Escaped js_error

section \<open>JavaScript truthiness\<close>

fun truthy_key :: "mutation_key option \<Rightarrow> bool" where
  "truthy_key None = False"
| "truthy_key (Some (KeyString s)) = (s \<noteq> [])"
| "truthy_key (Some (KeyArray ks)) = True"

fun truthy_hash :: "string option \<Rightarrow> bool" where
  "truthy_hash None = False"
| "truthy_hash (Some h) = (h \<noteq> [])"

fun truthy_flag :: "bool option \<Rightarrow> bool" where
  "truthy_flag None = False"
| "truthy_flag (Some b) = b"

section \<open>Store access\<close>

definition update_cache :: "(mutation_cache \<Rightarrow> mutation_cache) \<Rightarrow> world \<Rightarrow> world" where
  "update_cache f w = w\<lparr>cache := f (cache w)\<rparr>"

definition update_mutation :: "ref \<Rightarrow> (mutation \<Rightarrow> mutation) \<Rightarrow> world \<Rightarrow> world" where
  "update_mutation r f w = w\<lparr>heap := (heap w)[r := f (heap w ! r)]\<rparr>"

definition update_observer ::
  "oid \<Rightarrow> (mutation_observer \<Rightarrow> mutation_observer) \<Rightarrow> world \<Rightarrow> world" where
  "update_observer ob f w = w\<lparr>observer_heap := (observer_heap w)[ob := f (observer_heap w ! ob)]\<rparr>"

definition emit :: "event list \<Rightarrow> world \<Rightarrow> world" where
  "emit es w = w\<lparr>trace := trace w @ es\<rparr>"

section \<open>notifyManager\<close>

text \<open>
  Modelled from the spec: the flush of the Notification Scheduler (module notifyManager),
  which is not among the source files. "Entering increments a depth counter, the
  outermost exit flushes all queued listener invocations exactly once."
  \<open>transactions\<close> is the depth counter and \<open>flushes\<close> counts the flushes performed.
  Nothing in the two classes schedules work on the queue, so the queue itself is not
  represented.
\<close>

definition flush :: "world \<Rightarrow> world" where
  "flush w = w\<lparr>flushes := flushes w + 1\<rparr>"

text \<open>
  Modelled from the spec: \<^verbatim>\<open>notifyManager.batch(callback)\<close> is not among the source
  files. It enters (depth plus one), runs the callback, leaves (depth minus one), and
  flushes when that was the outermost exit.
\<close>

definition batch :: "(world \<Rightarrow> world) \<Rightarrow> world \<Rightarrow> world" where
  "batch callback w =
     (let w1 = callback (w\<lparr>transactions := transactions w + 1\<rparr>);
          w2 = w1\<lparr>transactions := transactions w1 - 1\<rparr>
      in if transactions w2 = 0 then flush w2 else w2)"

text \<open>
  Modelled from the spec: the same \<^verbatim>\<open>notifyManager.batch\<close>, for a callback whose
  result \<^verbatim>\<open>batch\<close> hands back.
\<close>

definition batch_value :: "(world \<Rightarrow> 'a \<times> world) \<Rightarrow> world \<Rightarrow> 'a \<times> world" where
  "batch_value callback w =
     (let (result, w1) = callback (w\<lparr>transactions := transactions w + 1\<rparr>);
          w2 = w1\<lparr>transactions := transactions w1 - 1\<rparr>
      in (result, if transactions w2 = 0 then flush w2 else w2))"

section \<open>Promises\<close>

text \<open>
  A promise is represented by what happens when the event loop drives it to settlement:
  run from the world of that moment, it gives the settlement and the world reached.
  \<open>then_promise p next\<close> is \<^verbatim>\<open>p.then(() => next)\<close> (no rejection handler: a rejection of
  \<open>p\<close> is passed on and \<open>next\<close> is never started); \<open>catch_noop p\<close> is
  \<^verbatim>\<open>p.catch(noop)\<close>.
\<close>

type_synonym promise = "world \<Rightarrow> settled \<times> world"

definition Promise_resolve :: promise where
  "Promise_resolve w = (Resolved, w)"

definition then_promise :: "promise \<Rightarrow> promise \<Rightarrow> promise" where
  "then_promise p next w =
     (case p w of (Resolved, w1) \<Rightarrow> next w1 | (Rejected, w1) \<Rightarrow> (Rejected, w1))"

definition catch_noop :: "promise \<Rightarrow> promise" where
  "catch_noop p w = (case p w of (s, w1) \<Rightarrow> (Resolved, w1))"

section \<open>Mutation\<close>

text \<open>
  Modelled from the spec: \<^verbatim>\<open>getDefaultState\<close> of module mutation, which is not among the
  source files. It is the state behind the "default idle view": status idle, not paused,
  no data, error, variables or context.
\<close>

definition getDefaultState :: mutation_state where
  "getDefaultState =
     \<lparr>status = Idle, isPaused = False, data = Undefined, error = Undefined,
      state_variables = Undefined, state_context = Undefined\<rparr>"

text \<open>
  Modelled from the spec: the constructor of Mutation, not among the source files. The
  new Mutation has the id, hash, options and default options it is given, the given
  state or else the default state, and an empty observer set.
\<close>

definition new_Mutation ::
  "nat \<Rightarrow> string option \<Rightarrow> mutation_options \<Rightarrow> mutation_state option \<Rightarrow>
   mutation_options option \<Rightarrow> mutation" where
  "new_Mutation mid mhash opts st defaults =
     \<lparr>mutationId = mid, mutationHash = mhash, options_m = opts,
      state = (case st of None \<Rightarrow> getDefaultState | Some s \<Rightarrow> s),
      defaultOptions = defaults, observers_m = []\<rparr>"

text \<open>
  Modelled from the spec: \<^verbatim>\<open>Mutation.addObserver\<close>, not among the source files.
  "addObserver/removeObserver manage the back-reference set" (a set: adding an observer
  twice keeps one entry).
\<close>

definition addObserver :: "oid \<Rightarrow> ref \<Rightarrow> world \<Rightarrow> world" where
  "addObserver ob r =
     update_mutation r (\<lambda>m. if ob \<in> set (observers_m m) then m
                              else m\<lparr>observers_m := observers_m m @ [ob]\<rparr>)"

text \<open>
  Modelled from the spec: \<^verbatim>\<open>Mutation.removeObserver\<close>, not among the source files; it
  takes the observer out of the back-reference set.
\<close>

definition removeObserver :: "oid \<Rightarrow> ref \<Rightarrow> world \<Rightarrow> world" where
  "removeObserver ob r =
     update_mutation r (\<lambda>m. m\<lparr>observers_m := filter (\<lambda>x. x \<noteq> ob) (observers_m m)\<rparr>)"

text \<open>
  Modelled from the spec: \<^verbatim>\<open>Mutation.cancel\<close>, not among the source files. It belongs
  to the Mutation's execution engine, which the spec leaves out of scope; the call is
  recorded in the trace.
\<close>

definition Mutation_cancel :: "ref \<Rightarrow> world \<Rightarrow> world" where
  "Mutation_cancel r = emit [CancelCall r]"

text \<open>
  Modelled from the spec: \<^verbatim>\<open>Mutation.execute\<close>, not among the source files. It "starts
  the underlying operation and returns an awaitable outcome"; the call is recorded in the
  trace, and the events the engine emits later reach an observer through
  \<^verbatim>\<open>onMutationUpdate\<close>.
\<close>

definition Mutation_execute :: "ref \<Rightarrow> world \<Rightarrow> world" where
  "Mutation_execute r = emit [ExecuteCall r]"

text \<open>
  Modelled from the spec: \<^verbatim>\<open>Mutation.continue\<close>, not among the source files. It "resumes
  a paused mutation, returning an awaitable outcome for the resumed attempt": the call is
  recorded, the Mutation is no longer paused, and the outcome settles as the parameter
  \<open>continueRejects\<close> says.
\<close>

definition Mutation_continue :: "env \<Rightarrow> ref \<Rightarrow> promise" where
  "Mutation_continue client r w =
     (let w1 = emit [ContinueCall r] w;
          w2 = update_mutation r (\<lambda>m. m\<lparr>state := (state m)\<lparr>isPaused := False\<rparr>\<rparr>) w1;
          s = (if continueRejects client r then Rejected else Resolved)
      in (s, emit [ContinueSettled r s] w2))"

section \<open>The dictionary of the cache\<close>

text \<open>The names \<^verbatim>\<open>Object.prototype\<close> answers to.\<close>

definition object_prototype_names :: "string list" where
  "object_prototype_names =
     [''constructor'', ''__defineGetter__'', ''__defineSetter__'', ''hasOwnProperty'',
      ''__lookupGetter__'', ''__lookupSetter__'', ''isPrototypeOf'', ''propertyIsEnumerable'',
      ''toString'', ''valueOf'', ''__proto__'', ''toLocaleString'']"

text \<open>
  What the prototype chain of \<^verbatim>\<open>this.mutationsMap\<close> gives for a name that is not an own
  property. With \<^verbatim>\<open>Object.prototype\<close> as the prototype, its members (and, for
  \<^verbatim>\<open>__proto__\<close>, itself). With a Mutation as the prototype, that Mutation for
  \<^verbatim>\<open>__proto__\<close>, else the Mutation's property of that name, else what
  \<^verbatim>\<open>Object.prototype\<close> has.
\<close>

definition inherited :: "env \<Rightarrow> string \<Rightarrow> world \<Rightarrow> lookup" where
  "inherited client h w =
     (case mutationsMap_proto (cache w) of
        None \<Rightarrow> if h \<in> set object_prototype_names then Foreign else Missing
      | Some p \<Rightarrow>
          if h = ''__proto__'' then Found p
          else (case mutationProperty client (heap w ! p) h of
                  Other_value \<Rightarrow> Foreign
                | Null_value \<Rightarrow> Null_found
                | Undefined_value \<Rightarrow> Missing
                | NoProperty \<Rightarrow> if h \<in> set object_prototype_names then Foreign else Missing))"

text \<open>
  \<^verbatim>\<open>this.mutationsMap[hash] = mutation\<close>. An own property is written, except that
  \<^verbatim>\<open>__proto__\<close>, unless it is an own property already, goes to the setter inherited from
  \<^verbatim>\<open>Object.prototype\<close>, which makes the Mutation the prototype and adds no property.
  (The other inherited names are writable data properties; those of a Mutation are
  taken to be so too.)
\<close>

definition mutationsMap_set :: "string \<Rightarrow> ref \<Rightarrow> mutation_cache \<Rightarrow> mutation_cache" where
  "mutationsMap_set h m c =
     (if h = ''__proto__'' \<and> map_of (mutationsMap c) h = None
      then c\<lparr>mutationsMap_proto := Some m\<rparr>
      else c\<lparr>mutationsMap := AList.update h m (mutationsMap c)\<rparr>)"

text \<open>\<^verbatim>\<open>delete this.mutationsMap[hash]\<close>: an own property goes; the prototype stays.\<close>

definition mutationsMap_delete :: "string \<Rightarrow> mutation_cache \<Rightarrow> mutation_cache" where
  "mutationsMap_delete h c = c\<lparr>mutationsMap := AList.delete h (mutationsMap c)\<rparr>"

section \<open>MutationCache\<close>

text \<open>\<^verbatim>\<open>notify(mutation)\<close>: every cache listener is called, inside one batch.\<close>

definition cache_notify :: "ref option \<Rightarrow> world \<Rightarrow> world" where
  "cache_notify m =
     batch (\<lambda>w. fold (\<lambda>listener. emit [CacheListener listener m]) (listeners_c (cache w)) w)"

definition add :: "ref \<Rightarrow> world \<Rightarrow> world" where
  "add m w =
     cache_notify (Some m) (update_cache (\<lambda>c. c\<lparr>mutations := mutations c @ [m]\<rparr>) w)"

text \<open>
  \<^verbatim>\<open>build(client, options, state)\<close>. Its constant \<^verbatim>\<open>mutationHash\<close> is the hash only when
  both \<^verbatim>\<open>options.shareable\<close> and \<^verbatim>\<open>options.mutationKey\<close> are truthy, otherwise it is
  \<^verbatim>\<open>null\<close>. The method has no \<^verbatim>\<open>throw\<close>: every path returns the new Mutation.
\<close>

definition hash_for_build :: "env \<Rightarrow> mutation_options \<Rightarrow> string option" where
  "hash_for_build client opts =
     (case mutationKey opts of
        None \<Rightarrow> None
      | Some k \<Rightarrow>
          if truthy_flag (shareable opts) \<and> truthy_key (Some k)
          then Some (hashMutationKeyByOptions client k opts) else None)"

definition build ::
  "env \<Rightarrow> mutation_options \<Rightarrow> mutation_state option \<Rightarrow> world \<Rightarrow> ref outcome \<times> world" where
  "build client opts st w =
     (let mutationHash' = hash_for_build client opts;
          w1 = update_cache (\<lambda>c. c\<lparr>mutationId_c := mutationId_c c + 1\<rparr>) w;
          mutation' =
            new_Mutation (mutationId_c (cache w1)) mutationHash'
              (defaultMutationOptions client (Some opts)) st
              (case mutationKey opts of
                 None \<Rightarrow> None
               | Some k \<Rightarrow> if truthy_key (Some k) then getMutationDefaults client k else None);
          m = length (heap w1);
          w2 = w1\<lparr>heap := heap w1 @ [mutation']\<rparr>;
          w3 = add m w2;
          w4 = (case mutationHash' of
                  None \<Rightarrow> w3
                | Some h \<Rightarrow>
                    if truthy_hash (Some h)
                    then update_cache (mutationsMap_set h m) w3
                    else w3)
      in (Returned m, w4))"

text \<open>
  \<^verbatim>\<open>remove(mutation)\<close>. Its statements run in the order: filter the collection, delete
  the index entry of the Mutation's hash (when the hash is truthy), \<^verbatim>\<open>mutation.cancel()\<close>,
  \<^verbatim>\<open>this.notify(mutation)\<close>. \<open>remove_detach\<close> is the first two; the Mutation's
  \<^verbatim>\<open>cancel\<close> method is a parameter of \<open>remove_with\<close>, and \<open>remove\<close> is the method with
  the \<^verbatim>\<open>cancel\<close> modelled above.
\<close>

definition remove_detach :: "ref \<Rightarrow> world \<Rightarrow> world" where
  "remove_detach m w =
     (let w1 = update_cache (\<lambda>c. c\<lparr>mutations := filter (\<lambda>x. x \<noteq> m) (mutations c)\<rparr>) w
      in case mutationHash (heap w1 ! m) of
           None \<Rightarrow> w1
         | Some h \<Rightarrow>
             if truthy_hash (Some h)
             then update_cache (mutationsMap_delete h) w1
             else w1)"

definition remove_with :: "(ref \<Rightarrow> world \<Rightarrow> world) \<Rightarrow> ref \<Rightarrow> world \<Rightarrow> world" where
  "remove_with cancel m w =
     (let w2 = remove_detach m w;
          w3 = cancel m w2
      in cache_notify (Some m) w3)"

definition remove :: "ref \<Rightarrow> world \<Rightarrow> world" where
  "remove = remove_with Mutation_cancel"

text \<open>\<^verbatim>\<open>clear()\<close>: \<^verbatim>\<open>forEach\<close> walks the array that \<^verbatim>\<open>this.mutations\<close> held when the
  call started (\<^verbatim>\<open>remove\<close> assigns a new array and leaves that one alone).\<close>

definition clear :: "world \<Rightarrow> world" where
  "clear = batch (\<lambda>w. fold remove (mutations (cache w)) w)"

definition getAll :: "world \<Rightarrow> ref list" where
  "getAll w = mutations (cache w)"

text \<open>\<^verbatim>\<open>get(hash)\<close> returns \<^verbatim>\<open>this.mutationsMap[hash]\<close>: the own property of that name
  if there is one, else what the prototype chain gives.\<close>

definition get :: "env \<Rightarrow> string \<Rightarrow> world \<Rightarrow> lookup" where
  "get client h w =
     (case map_of (mutationsMap (cache w)) h of
        Some m \<Rightarrow> Found m
      | None \<Rightarrow> inherited client h w)"

text \<open>
  \<^verbatim>\<open>resumePausedMutations()\<close>: the paused Mutations are filtered out of the collection
  when the method is called; the \<^verbatim>\<open>reduce\<close> inside the batch only builds the chain, which
  the event loop runs afterwards. \<^verbatim>\<open>onFocus\<close> and \<^verbatim>\<open>onOnline\<close> drop the promise they get;
  the chain it stands for is pending all the same, so the model keeps it.
\<close>

definition resumePausedMutations :: "env \<Rightarrow> world \<Rightarrow> promise \<times> world" where
  "resumePausedMutations client w =
     (let pausedMutations = filter (\<lambda>x. isPaused (state (heap w ! x))) (mutations (cache w))
      in batch_value
           (\<lambda>w'. (foldl (\<lambda>promise m. then_promise promise (catch_noop (Mutation_continue client m)))
                      Promise_resolve pausedMutations, w')) w)"

definition onFocus :: "env \<Rightarrow> world \<Rightarrow> promise \<times> world" where
  "onFocus client w = resumePausedMutations client w"

definition onOnline :: "env \<Rightarrow> world \<Rightarrow> promise \<times> world" where
  "onOnline client w = resumePausedMutations client w"

section \<open>MutationObserver\<close>

text \<open>The object literal of \<^verbatim>\<open>updateResult\<close>: the state spread, the four flags, the
  bound methods.\<close>

definition result_of :: "oid \<Rightarrow> mutation_state \<Rightarrow> mutation_observer_result" where
  "result_of ob st =
     \<lparr>status = status st, isPaused = isPaused st, data = data st, error = error st,
      state_variables = state_variables st, state_context = state_context st,
      isLoading = (status st = Loading), isSuccess = (status st = Success),
      isError = (status st = Error), isIdle = (status st = Idle),
      mutate_fn = ob, reset_fn = ob\<rparr>"

definition updateResult :: "oid \<Rightarrow> world \<Rightarrow> world" where
  "updateResult ob w =
     (let st = (case currentMutation (observer_heap w ! ob) of
                  None \<Rightarrow> getDefaultState
                | Some m \<Rightarrow> state (heap w ! m))
      in update_observer ob (\<lambda>this. this\<lparr>currentResult := result_of ob st\<rparr>) w)"

text \<open>\<^verbatim>\<open>notify(options)\<close>: first the call-scoped callbacks that are present, then the
  listeners, all inside one batch.\<close>

definition notify :: "oid \<Rightarrow> notify_options \<Rightarrow> world \<Rightarrow> world" where
  "notify ob opts =
     batch (\<lambda>w.
       let res = currentResult (observer_heap w ! ob);
           w1 = (case mutateOptions (observer_heap w ! ob) of
                   None \<Rightarrow> w
                 | Some mo \<Rightarrow>
                     if onSuccess_n opts then
                       emit ((if onSuccess mo
                              then [CallOnSuccess ob (data res) (state_variables res) (state_context res)]
                              else []) @
                             (if onSettled mo
                              then [CallOnSettled ob (data res) Null (state_variables res)
                                      (state_context res)]
                              else [])) w
                     else if onError_n opts then
                       emit ((if onError mo
                              then [CallOnError ob (error res) (state_variables res) (state_context res)]
                              else []) @
                             (if onSettled mo
                              then [CallOnSettled ob Undefined (error res) (state_variables res)
                                      (state_context res)]
                              else [])) w
                     else w)
       in if listeners_n opts
          then fold (\<lambda>listener w'.
                       emit [ObserverListener ob listener (currentResult (observer_heap w' ! ob))] w')
                 (listeners (observer_heap w1 ! ob)) w1
          else w1)"


text \<open>\<^verbatim>\<open>this.currentMutation?.removeObserver(this)\<close> and
  \<^verbatim>\<open>this.currentMutation?.addObserver(this)\<close>: nothing happens when no Mutation is bound.\<close>

definition removeObserver_current :: "oid \<Rightarrow> world \<Rightarrow> world" where
  "removeObserver_current ob w =
     (case currentMutation (observer_heap w ! ob) of
        None \<Rightarrow> w
      | Some m \<Rightarrow> removeObserver ob m w)"

definition addObserver_current :: "oid \<Rightarrow> world \<Rightarrow> world" where
  "addObserver_current ob w =
     (case currentMutation (observer_heap w ! ob) of
        None \<Rightarrow> w
      | Some m \<Rightarrow> addObserver ob m w)"

text \<open>
  The rebinding steps of \<^verbatim>\<open>updateSharedMutation\<close>, for a Mutation or nothing to bind
  to: remove the observer from the Mutation it is bound to, store the new reference, add
  the observer to the new Mutation, recompute the result.
\<close>

definition rebind :: "oid \<Rightarrow> ref option \<Rightarrow> world \<Rightarrow> world" where
  "rebind ob m' w =
     updateResult ob
       (addObserver_current ob
          (update_observer ob (\<lambda>this. this\<lparr>currentMutation := m'\<rparr>) (removeObserver_current ob w)))"

text \<open>
  \<^verbatim>\<open>updateSharedMutation()\<close>. Reading \<^verbatim>\<open>this.options.shareable\<close> while
  \<^verbatim>\<open>this.options\<close> is still undefined is a TypeError. What \<^verbatim>\<open>get\<close> returns decides the
  rest. \<^verbatim>\<open>undefined\<close> or a Mutation: nothing happens when it is what the observer holds,
  else the observer is rebound. \<^verbatim>\<open>null\<close>: the rebinding steps run, with nothing to add
  the observer to, and the field holds \<^verbatim>\<open>null\<close>, which is kept as \<open>None\<close> like
  \<^verbatim>\<open>undefined\<close>. Every later read of the field treats the two alike but the \<^verbatim>\<open>===\<close> of
  this method, and there taking one for the other only decides whether \<^verbatim>\<open>updateResult\<close>
  runs once more on an observer that holds no Mutation, which changes nothing once it
  has run. Any other value: the observer is removed from its Mutation, the value is
  stored, and the call \<^verbatim>\<open>this.currentMutation?.addObserver(this)\<close> throws a TypeError,
  the value having no such method.
\<close>

definition updateSharedMutation :: "env \<Rightarrow> oid \<Rightarrow> world \<Rightarrow> unit ending" where
  "updateSharedMutation client ob w =
     (case options (observer_heap w ! ob) of
        None \<Rightarrow> Ended (Threw TypeError) w
      | Some opts \<Rightarrow>
          if \<not> truthy_flag (shareable opts) then Ended (Returned ()) w
          else
            (case mutationKey opts of
               None \<Rightarrow> Ended (Threw MutationKeyRequired) w
             | Some k \<Rightarrow>
                 if \<not> truthy_key (Some k) then Ended (Threw MutationKeyRequired) w
                 else
                   (case get client (hashMutationKeyByOptions client k opts) w of
                      Missing \<Rightarrow>
                        if currentMutation (observer_heap w ! ob) = None then Ended (Returned ()) w
                        else Ended (Returned ()) (rebind ob None w)
                    | Found m \<Rightarrow>
                        if currentMutation (observer_heap w ! ob) = Some m then Ended (Returned ()) w
                        else Ended (Returned ()) (rebind ob (Some m) w)
                    | Null_found \<Rightarrow> Ended (Returned ()) (rebind ob None w)
                    | Foreign \<Rightarrow> Escaped TypeError)))"

text \<open>\<^verbatim>\<open>setOptions(options)\<close>: the new options are stored before the comparison, which
  sets the stored previous \<^verbatim>\<open>shareable\<close> against the one of the argument as passed.\<close>

definition setOptions ::
  "env \<Rightarrow> oid \<Rightarrow> mutation_options option \<Rightarrow> world \<Rightarrow> unit ending" where
  "setOptions client ob opts w =
     (let prevOptions = options (observer_heap w ! ob);
          w1 = update_observer ob
                 (\<lambda>this. this\<lparr>options := Some (defaultMutationOptions client opts)\<rparr>) w
      in case prevOptions of
           None \<Rightarrow> updateSharedMutation client ob w1
         | Some prev \<Rightarrow>
             if shareable prev \<noteq> (case opts of None \<Rightarrow> None | Some x \<Rightarrow> shareable x)
             then Ended (Threw ShareableChanged) w1
             else updateSharedMutation client ob w1)"

definition onUnsubscribe :: "oid \<Rightarrow> world \<Rightarrow> world" where
  "onUnsubscribe ob w =
     (if listeners (observer_heap w ! ob) = [] then removeObserver_current ob w else w)"

definition reset :: "oid \<Rightarrow> world \<Rightarrow> world" where
  "reset ob w =
     (let w1 = update_observer ob (\<lambda>this. this\<lparr>currentMutation := None\<rparr>) w;
          w2 = updateResult ob w1
      in notify ob \<lparr>listeners_n = True, onError_n = False, onSuccess_n = False\<rparr> w2)"

text \<open>
  \<^verbatim>\<open>mutate(variables, options)\<close>. The options handed to \<^verbatim>\<open>build\<close> are the spread of
  \<^verbatim>\<open>this.options\<close> with \<^verbatim>\<open>variables\<close> replaced. The promise returned is the one of
  \<^verbatim>\<open>execute()\<close> on the new Mutation; the model returns that Mutation.
\<close>

definition mutate ::
  "env \<Rightarrow> oid \<Rightarrow> jsval \<Rightarrow> mutate_options option \<Rightarrow> world \<Rightarrow> ref outcome \<times> world" where
  "mutate client ob vars callOptions w =
     (let w1 = update_observer ob (\<lambda>this. this\<lparr>mutateOptions := callOptions\<rparr>) w;
          w2 = removeObserver_current ob w1
      in case (case options (observer_heap w2 ! ob) of
                 None \<Rightarrow>
                   if vars \<noteq> Undefined
                   then Returned \<lparr>shareable = None, mutationKey = None, variables = vars\<rparr>
                   else Threw TypeError
               | Some opts \<Rightarrow>
                   Returned (opts\<lparr>variables := (if vars \<noteq> Undefined then vars else variables opts)\<rparr>))
         of
           Threw e \<Rightarrow> (Threw e, w2)
         | Returned buildOptions \<Rightarrow>
             (case build client buildOptions None w2 of
                (Threw e, w3) \<Rightarrow> (Threw e, w3)
              | (Returned m, w3) \<Rightarrow>
                  let w4 = update_observer ob (\<lambda>this. this\<lparr>currentMutation := Some m\<rparr>) w3;
                      w5 = addObserver ob m w4
                  in (Returned m, Mutation_execute m w5)))"

text \<open>
  The constructor: a new object with no options, no Mutation, no call-scoped callbacks
  and no listeners, then \<^verbatim>\<open>setOptions\<close>, \<^verbatim>\<open>bindMethods\<close> (nothing to do here: the bound
  methods are identified by the observer) and \<^verbatim>\<open>updateResult\<close>. \<^verbatim>\<open>currentResult\<close> is
  unassigned until \<^verbatim>\<open>updateResult\<close> runs and nobody reads it before; the new object
  holds the idle view in its place.
\<close>

definition new_MutationObserver ::
  "env \<Rightarrow> mutation_options \<Rightarrow> world \<Rightarrow> oid ending" where
  "new_MutationObserver client opts w =
     (let ob = length (observer_heap w);
          w1 = w\<lparr>observer_heap := observer_heap w @
                   [\<lparr>options = None, currentResult = result_of ob getDefaultState,
                     currentMutation = None, mutateOptions = None, listeners = []\<rparr>]\<rparr>
      in case setOptions client ob (Some opts) w1 of
           Escaped e \<Rightarrow> Escaped e
         | Ended (Threw e) w2 \<Rightarrow> Ended (Threw e) w2
         | Ended (Returned u) w2 \<Rightarrow> Ended (Returned ob) (updateResult ob w2))"

text \<open>
  Modelled from the spec: \<^verbatim>\<open>subscribe\<close> of class Subscribable, which is not among the
  source files. "subscribe(listener) -> unsubscribe": the listener joins the listeners.
\<close>

definition subscribe :: "oid \<Rightarrow> lid \<Rightarrow> world \<Rightarrow> world" where
  "subscribe ob listener =
     update_observer ob (\<lambda>this. this\<lparr>listeners := listeners this @ [listener]\<rparr>)"

text \<open>
  Modelled from the spec: the function \<^verbatim>\<open>subscribe\<close> returns, for the same reason. The
  listener is taken out and then the unsubscribe hook runs.
\<close>

definition unsubscribe :: "oid \<Rightarrow> lid \<Rightarrow> world \<Rightarrow> world" where
  "unsubscribe ob listener w =
     onUnsubscribe ob
       (update_observer ob (\<lambda>this. this\<lparr>listeners := filter (\<lambda>x. x \<noteq> listener) (listeners this)\<rparr>) w)"

section \<open>Properties stated below\<close>

text \<open>
  The binding invariant of the spec: an observer that holds a reference to a Mutation is
  in that Mutation's observer set (and the reference is a Mutation of the heap);
  \<open>registered\<close> says so of every observer. \<open>index_valid\<close>: the hash index, its prototype
  included, only holds Mutations of the heap.
\<close>

definition registered_at :: "world \<Rightarrow> oid \<Rightarrow> bool" where
  "registered_at w ob =
     (case currentMutation (observer_heap w ! ob) of
        None \<Rightarrow> True
      | Some m \<Rightarrow> m < length (heap w) \<and> ob \<in> set (observers_m (heap w ! m)))"

definition registered :: "world \<Rightarrow> bool" where
  "registered w \<longleftrightarrow> (\<forall>ob \<in> set [0..<length (observer_heap w)]. registered_at w ob)"

definition index_valid :: "world \<Rightarrow> bool" where
  "index_valid w \<longleftrightarrow>
     (\<forall>(h, m) \<in> set (mutationsMap (cache w)). m < length (heap w)) \<and>
     (case mutationsMap_proto (cache w) of None \<Rightarrow> True | Some p \<Rightarrow> p < length (heap w))"

text \<open>
  "On unbind both sides are updated together", of an operation on observer \<open>ob\<close> that
  leads from \<open>w\<close> to \<open>w'\<close>: if the observer held a Mutation before and does not hold
  it after, it is not in that Mutation's observer set after.
\<close>

definition let_go_together :: "oid \<Rightarrow> world \<Rightarrow> world \<Rightarrow> bool" where
  "let_go_together ob w w' =
     (case currentMutation (observer_heap w ! ob) of
        None \<Rightarrow> True
      | Some m0 \<Rightarrow>
          currentMutation (observer_heap w' ! ob) = Some m0 \<or>
          ob \<notin> set (observers_m (heap w' ! m0)))"

text \<open>Options whose hash, if they have a key, is no name of \<^verbatim>\<open>Object.prototype\<close>.\<close>

definition plain_options :: "env \<Rightarrow> mutation_options \<Rightarrow> bool" where
  "plain_options client opts =
     (case mutationKey opts of
        None \<Rightarrow> True
      | Some k \<Rightarrow> hashMutationKeyByOptions client k opts \<notin> set object_prototype_names)"

text \<open>The options \<^verbatim>\<open>mutate\<close> hands to \<^verbatim>\<open>build\<close>, and the heap once the observer has been
  taken out of the observer set of the Mutation it is bound to.\<close>

definition build_options :: "mutation_options \<Rightarrow> jsval \<Rightarrow> mutation_options" where
  "build_options opts vars = opts\<lparr>variables := (if vars \<noteq> Undefined then vars else variables opts)\<rparr>"

definition detached_heap :: "oid \<Rightarrow> world \<Rightarrow> mutation list" where
  "detached_heap ob w =
     (case currentMutation (observer_heap w ! ob) of
        None \<Rightarrow> heap w
      | Some m \<Rightarrow>
          (heap w)[m := (heap w ! m)\<lparr>observers_m := filter (\<lambda>x. x \<noteq> ob) (observers_m (heap w ! m))\<rparr>])"

text \<open>The heap the rebinding steps leave.\<close>

definition rebound_heap :: "oid \<Rightarrow> ref option \<Rightarrow> world \<Rightarrow> mutation list" where
  "rebound_heap ob m' w =
     (case m' of
        None \<Rightarrow> detached_heap ob w
      | Some m \<Rightarrow>
          (detached_heap ob w)
            [m := (if ob \<in> set (observers_m (detached_heap ob w ! m)) then detached_heap ob w ! m
                   else (detached_heap ob w ! m)
                          \<lparr>observers_m := observers_m (detached_heap ob w ! m) @ [ob]\<rparr>)])"

text \<open>The world a call on an observer ended in, if it did.\<close>

fun ended_world :: "'a ending \<Rightarrow> world option" where
  "ended_world (Ended r w) = Some w"
| "ended_world (Escaped e) = None"

text \<open>A stand-in for \<^verbatim>\<open>cancel\<close> that records what it finds when it is called: whether the
  Mutation is still in the collection, and whether the index still has an own entry
  that maps its hash to it.\<close>

definition cancel_probe :: "ref \<Rightarrow> world \<Rightarrow> world" where
  "cancel_probe m w =
     emit [CancelProbe m (m \<in> set (getAll w))
             (case mutationHash (heap w ! m) of
                None \<Rightarrow> False
              | Some h \<Rightarrow> map_of (mutationsMap (cache w)) h = Some m)] w"

text \<open>The calls a terminal notification is to make, in order: the success or error
  callback and the settled callback of the bundle (each when present), then every
  listener with the result.\<close>

definition success_calls :: "oid \<Rightarrow> mutate_options \<Rightarrow> mutation_observer_result \<Rightarrow> event list" where
  "success_calls ob mo res =
     (if onSuccess mo then [CallOnSuccess ob (data res) (state_variables res) (state_context res)]
      else []) @
     (if onSettled mo
      then [CallOnSettled ob (data res) Null (state_variables res) (state_context res)] else [])"

definition error_calls :: "oid \<Rightarrow> mutate_options \<Rightarrow> mutation_observer_result \<Rightarrow> event list" where
  "error_calls ob mo res =
     (if onError mo then [CallOnError ob (error res) (state_variables res) (state_context res)]
      else []) @
     (if onSettled mo
      then [CallOnSettled ob Undefined (error res) (state_variables res) (state_context res)]
      else [])"

definition listener_calls :: "oid \<Rightarrow> lid list \<Rightarrow> mutation_observer_result \<Rightarrow> event list" where
  "listener_calls ob ls res = map (\<lambda>l. ObserverListener ob l res) ls"

text \<open>The paused Mutations of a world, in insertion order, and the calls the resume chain
  is to make for a list of Mutations: one \<^verbatim>\<open>continue()\<close> after the other, each settled
  before the next is called.\<close>

definition paused_at :: "world \<Rightarrow> ref list" where
  "paused_at w = filter (\<lambda>x. isPaused (state (heap w ! x))) (mutations (cache w))"

definition continue_calls :: "env \<Rightarrow> ref list \<Rightarrow> event list" where
  "continue_calls client ms =
     concat (map (\<lambda>m. [ContinueCall m,
                        ContinueSettled m (if continueRejects client m then Rejected else Resolved)]) ms)"

text \<open>The view derived from the state the bound Mutation has now (the default state when
  no Mutation is bound).\<close>

definition derived_result :: "oid \<Rightarrow> world \<Rightarrow> mutation_observer_result" where
  "derived_result ob w =
     result_of ob (case currentMutation (observer_heap w ! ob) of
                     None \<Rightarrow> getDefaultState
                   | Some m \<Rightarrow> state (heap w ! m))"

section \<open>Concrete worlds\<close>

text \<open>An empty cache with one cache listener, nothing else; and a client whose hash of a
  key is the key's text, whose defaults add nothing, for which the resumed attempt of
  Mutation 0 rejects, and whose Mutations have no properties to be found by a lookup.\<close>

definition world0 :: world where
  "world0 =
     \<lparr>cache = \<lparr>mutations = [], mutationsMap = [], mutationId_c = 0, listeners_c = [0],
               mutationsMap_proto = None\<rparr>,
      heap = [], observer_heap = [], transactions = 0, flushes = 0, trace = []\<rparr>"

definition client0 :: env where
  "client0 =
     \<lparr>hashMutationKeyByOptions = (\<lambda>k opts. case k of KeyString s \<Rightarrow> s | KeyArray ks \<Rightarrow> concat ks),
      defaultMutationOptions =
        (\<lambda>opts. case opts of
                  None \<Rightarrow> \<lparr>shareable = None, mutationKey = None, variables = Undefined\<rparr>
                | Some x \<Rightarrow> x),
      getMutationDefaults = (\<lambda>k. None),
      continueRejects = (\<lambda>r. r = 0),
      mutationProperty = (\<lambda>m h. NoProperty)\<rparr>"

text \<open>Options: shareable without a key; shareable with the key \<open>''k''\<close>, and with the key
  \<open>''j''\<close>; not shareable.\<close>

definition shareable_j :: mutation_options where
  "shareable_j =
     \<lparr>shareable = Some True, mutationKey = Some (KeyString ''j''), variables = Undefined\<rparr>"

definition shareable_no_key :: mutation_options where
  "shareable_no_key = \<lparr>shareable = Some True, mutationKey = None, variables = Undefined\<rparr>"

definition shareable_k :: mutation_options where
  "shareable_k =
     \<lparr>shareable = Some True, mutationKey = Some (KeyString ''k''), variables = Undefined\<rparr>"

definition private_k :: mutation_options where
  "private_k =
     \<lparr>shareable = Some False, mutationKey = Some (KeyString ''k''), variables = Undefined\<rparr>"

text \<open>One shareable Mutation with key \<open>''k''\<close> built on the empty cache; a second one with
  the same key built after it; then a third, not shareable, with the first two paused by
  their engines.\<close>

definition world_k1 :: world where
  "world_k1 = snd (build client0 shareable_k None world0)"

definition world_k2 :: world where
  "world_k2 = snd (build client0 shareable_k None world_k1)"

definition world_paused :: world where
  "world_paused =
     update_mutation 1 (\<lambda>m. m\<lparr>state := (state m)\<lparr>status := Loading, isPaused := True\<rparr>\<rparr>)
       (update_mutation 0 (\<lambda>m. m\<lparr>state := (state m)\<lparr>status := Loading, isPaused := True\<rparr>\<rparr>)
          (snd (build client0 private_k None world_k2)))"

text \<open>
  Observer 0, not shareable, with one listener, after \<^verbatim>\<open>mutate(3, callbacks)\<close> with all
  three callbacks; the same once the Mutation's engine has recorded success with data 5;
  and the same after the listener has unsubscribed. Then a shareable observer alone on
  the empty cache, and a shareable observer constructed when the cache already holds a
  shared Mutation for its hash.
\<close>

definition callbacks_all :: mutate_options where
  "callbacks_all = \<lparr>onSuccess = True, onError = True, onSettled = True\<rparr>"

definition world_observed :: world where
  "world_observed =
     snd (mutate client0 0 (Val 3) (Some callbacks_all)
            (subscribe 0 7 (the (ended_world (new_MutationObserver client0 private_k world0)))))"


definition world_unsubscribed :: world where
  "world_unsubscribed = unsubscribe 0 7 world_observed"

definition world_shared :: world where
  "world_shared = the (ended_world (new_MutationObserver client0 shareable_k world0))"

definition world_shared_bound :: world where
  "world_shared_bound = the (ended_world (new_MutationObserver client0 shareable_k world_k1))"

text \<open>The shareable observer bound to the shared Mutation 0, after one \<^verbatim>\<open>mutate()\<close>
  and after a second one.\<close>

definition world_mutated_once :: world where
  "world_mutated_once = snd (mutate client0 0 Undefined None world_shared_bound)"

definition world_mutated_twice :: world where
  "world_mutated_twice = snd (mutate client0 0 Undefined None world_mutated_once)"

text \<open>
  A cache with a shared Mutation for \<open>''k''\<close> and one for \<open>''j''\<close>, and the same with a
  shareable observer constructed for \<open>''k''\<close>, which binds it to the first. Then the world
  after \<^verbatim>\<open>setOptions\<close> on the lone shareable observer with options that are not shareable
  (a call that throws), and after the same call repeated.
\<close>

definition world_kj :: world where
  "world_kj = snd (build client0 shareable_j None world_k1)"

definition world_kj_bound :: world where
  "world_kj_bound = the (ended_world (new_MutationObserver client0 shareable_k world_kj))"

definition world_flag_changed :: world where
  "world_flag_changed = the (ended_world (setOptions client0 0 (Some private_k) world_shared))"

definition world_flag_changed_again :: world where
  "world_flag_changed_again =
     the (ended_world (setOptions client0 0 (Some private_k) world_flag_changed))"

text \<open>
  The cache of \<open>world_kj_bound\<close> after one more shareable Mutation has been built for
  \<open>''k''\<close>: the index now maps \<open>''k''\<close> to Mutation 2 while observer 0 is bound to Mutation 0.
  Then the worlds \<^verbatim>\<open>updateSharedMutation\<close> on observer 0 leads to from there, and
  \<^verbatim>\<open>setOptions\<close> with the key \<open>''j''\<close>.
\<close>

definition world_rebuilt :: world where
  "world_rebuilt = snd (build client0 shareable_k None world_kj_bound)"

definition world_rebound_k :: world where
  "world_rebound_k = the (ended_world (updateSharedMutation client0 0 world_rebuilt))"

definition world_rebound_j :: world where
  "world_rebound_j = the (ended_world (setOptions client0 0 (Some shareable_j) world_rebuilt))"

section \<open>Basic facts\<close>

lemma fold_emit: "fold (\<lambda>x. emit [f x]) xs w = emit (map f xs) w"
  by (induction xs arbitrary: w) (simp_all add: emit_def)

lemma cache_notify_eq:
  "cache_notify m w =
     w\<lparr>flushes := (if transactions w = 0 then flushes w + 1 else flushes w),
       trace := trace w @ map (\<lambda>l. CacheListener l m) (listeners_c (cache w))\<rparr>"
  by (simp add: cache_notify_def batch_def fold_emit emit_def flush_def Let_def)

lemma build_eq:
  "fst (build client opts st w) = Returned (length (heap w))"
  "heap (snd (build client opts st w)) =
     heap w @
       [new_Mutation (mutationId_c (cache w) + 1) (hash_for_build client opts)
          (defaultMutationOptions client (Some opts)) st
          (case mutationKey opts of
             None \<Rightarrow> None
           | Some k \<Rightarrow> if truthy_key (Some k) then getMutationDefaults client k else None)]"
  "observer_heap (snd (build client opts st w)) = observer_heap w"
  "transactions (snd (build client opts st w)) = transactions w"
  "flushes (snd (build client opts st w)) = (if transactions w = 0 then flushes w + 1 else flushes w)"
  "trace (snd (build client opts st w)) =
     trace w @ map (\<lambda>l. CacheListener l (Some (length (heap w)))) (listeners_c (cache w))"
  "mutations (cache (snd (build client opts st w))) = mutations (cache w) @ [length (heap w)]"
  "mutationId_c (cache (snd (build client opts st w))) = mutationId_c (cache w) + 1"
  "listeners_c (cache (snd (build client opts st w))) = listeners_c (cache w)"
  "mutationsMap (cache (snd (build client opts st w))) =
     (case hash_for_build client opts of
        None \<Rightarrow> mutationsMap (cache w)
      | Some h \<Rightarrow>
          if h \<noteq> [] \<and> \<not> (h = ''__proto__'' \<and> map_of (mutationsMap (cache w)) h = None)
          then AList.update h (length (heap w)) (mutationsMap (cache w))
          else mutationsMap (cache w))"
  "mutationsMap_proto (cache (snd (build client opts st w))) =
     (case hash_for_build client opts of
        None \<Rightarrow> mutationsMap_proto (cache w)
      | Some h \<Rightarrow>
          if h = ''__proto__'' \<and> map_of (mutationsMap (cache w)) h = None
          then Some (length (heap w))
          else mutationsMap_proto (cache w))"
  by (auto simp: build_def Let_def add_def cache_notify_eq update_cache_def mutationsMap_set_def
      split: option.splits)

lemma remove_detach_eq:
  "remove_detach m w =
     w\<lparr>cache := (cache w)
          \<lparr>mutations := filter (\<lambda>x. x \<noteq> m) (mutations (cache w)),
           mutationsMap :=
             (case mutationHash (heap w ! m) of
                None \<Rightarrow> mutationsMap (cache w)
              | Some h \<Rightarrow> if h \<noteq> [] then AList.delete h (mutationsMap (cache w))
                          else mutationsMap (cache w))\<rparr>\<rparr>"
  by (simp add: remove_detach_def Let_def update_cache_def mutationsMap_delete_def
      split: option.splits)

lemma remove_eq:
  "remove m w =
     (remove_detach m w)
       \<lparr>flushes := (if transactions w = 0 then flushes w + 1 else flushes w),
        trace := trace w @ CancelCall m # map (\<lambda>l. CacheListener l (Some m)) (listeners_c (cache w))\<rparr>"
  by (simp add: remove_def remove_with_def Let_def Mutation_cancel_def emit_def cache_notify_eq
        remove_detach_eq)

lemma fold_remove_mutations:
  "mutations (cache (fold remove xs w)) = filter (\<lambda>x. x \<notin> set xs) (mutations (cache w))"
  by (induction xs arbitrary: w) (simp_all add: remove_eq remove_detach_eq)

lemma fold_remove_frame:
  "transactions (fold remove xs w) = transactions w \<and>
   listeners_c (cache (fold remove xs w)) = listeners_c (cache w) \<and>
   heap (fold remove xs w) = heap w \<and> observer_heap (fold remove xs w) = observer_heap w"
  by (induction xs arbitrary: w) (simp_all add: remove_eq remove_detach_eq)

lemma fold_remove_flushes:
  "0 < transactions w \<Longrightarrow> flushes (fold remove xs w) = flushes w"
  by (induction xs arbitrary: w) (simp_all add: remove_eq remove_detach_eq)

lemma fold_remove_flushes_unbatched:
  "transactions w = 0 \<Longrightarrow> flushes (fold remove xs w) = flushes w + length xs"
  by (induction xs arbitrary: w) (simp_all add: remove_eq remove_detach_eq)

lemma fold_remove_trace:
  "trace (fold remove xs w) =
     trace w @ concat (map (\<lambda>m. CancelCall m # map (\<lambda>l. CacheListener l (Some m)) (listeners_c (cache w))) xs)"
  by (induction xs arbitrary: w) (simp_all add: remove_eq remove_detach_eq)

lemma world_k1_eq:
  "world_k1 = \<lparr>cache = \<lparr>mutations = [0], mutationsMap = [(''k'', 0)], mutationId_c = 1,
                        listeners_c = [0], mutationsMap_proto = None\<rparr>,
      heap = [new_Mutation 1 (Some ''k'') shareable_k None None], observer_heap = [],
      transactions = 0, flushes = 1, trace = [CacheListener 0 (Some 0)]\<rparr>"
  by (simp add: world_k1_def build_def Let_def add_def cache_notify_eq update_cache_def
        world0_def hash_for_build_def shareable_k_def client0_def mutationsMap_set_def)

lemma world_k2_eq:
  "world_k2 = \<lparr>cache = \<lparr>mutations = [0, 1], mutationsMap = [(''k'', 1)], mutationId_c = 2,
                        listeners_c = [0], mutationsMap_proto = None\<rparr>,
      heap = [new_Mutation 1 (Some ''k'') shareable_k None None,
              new_Mutation 2 (Some ''k'') shareable_k None None], observer_heap = [],
      transactions = 0, flushes = 2, trace = [CacheListener 0 (Some 0), CacheListener 0 (Some 1)]\<rparr>"
  by (simp add: world_k2_def world_k1_eq build_def Let_def add_def cache_notify_eq update_cache_def
        hash_for_build_def shareable_k_def client0_def mutationsMap_set_def numeral_2_eq_2)

lemma get_prototype_name:
  "mutationsMap_proto (cache w) = None \<Longrightarrow> map_of (mutationsMap (cache w)) h = None \<Longrightarrow>
   h \<in> set object_prototype_names \<Longrightarrow> get client h w = Foreign"
  by (simp add: get_def inherited_def)

lemma plain_k: "''k'' \<notin> set object_prototype_names" "''j'' \<notin> set object_prototype_names"
  by (simp_all add: object_prototype_names_def)

section \<open>MutationCache.build\<close>

text \<open>
  C1, as the code has it: \<^verbatim>\<open>build\<close> called with \<^verbatim>\<open>shareable\<close> true and no (truthy)
  \<^verbatim>\<open>mutationKey\<close> does not fail. It returns a new Mutation whose hash is \<^verbatim>\<open>null\<close> and
  whose id is the counter plus one, appends it to the ordered collection, and leaves the
  hash index as it was.
\<close>

theorem build_shareable_without_key:
  assumes "shareable opts = Some True" and "\<not> truthy_key (mutationKey opts)"
  shows "fst (build client opts st w) = Returned (length (heap w)) \<and>
         heap (snd (build client opts st w)) =
           heap w @ [new_Mutation (mutationId_c (cache w) + 1) None
                       (defaultMutationOptions client (Some opts)) st None] \<and>
         getAll (snd (build client opts st w)) = getAll w @ [length (heap w)] \<and>
         mutationsMap (cache (snd (build client opts st w))) = mutationsMap (cache w)"
  using assms
  by (cases "mutationKey opts")
     (simp_all add: build_def hash_for_build_def getAll_def Let_def add_def cache_notify_eq
        update_cache_def)

theorem build_shareable_without_key_witness:
  "shareable shareable_no_key = Some True \<and> \<not> truthy_key (mutationKey shareable_no_key) \<and>
   fst (build client0 shareable_no_key None world0) = Returned 0 \<and>
   getAll (snd (build client0 shareable_no_key None world0)) = [0] \<and>
   mutationsMap (cache (snd (build client0 shareable_no_key None world0))) = []"
  using build_shareable_without_key [of shareable_no_key client0 None world0]
  by (simp add: shareable_no_key_def world0_def getAll_def)

text \<open>
  C1 as the spec states it fails: with \<^verbatim>\<open>shareable\<close> true and no \<^verbatim>\<open>mutationKey\<close>,
  \<^verbatim>\<open>build\<close> on the empty cache throws nothing, returns Mutation 0 and the cache then
  holds it.
\<close>

theorem build_shareable_without_key_counterexample:
  "shareable shareable_no_key = Some True \<and> mutationKey shareable_no_key = None \<and>
   fst (build client0 shareable_no_key None world0) \<noteq> Threw MutationKeyRequired \<and>
   fst (build client0 shareable_no_key None world0) = Returned 0 \<and>
   getAll world0 = [] \<and>
   getAll (snd (build client0 shareable_no_key None world0)) = [0]"
  by (simp add: build_def hash_for_build_def getAll_def Let_def add_def cache_notify_eq
        update_cache_def shareable_no_key_def world0_def)

section \<open>MutationCache.remove and clear\<close>

text \<open>
  C4, as the code has it: \<^verbatim>\<open>remove\<close> first takes the Mutation out of the ordered
  collection and deletes the own entry the index has for its hash, then calls
  \<^verbatim>\<open>cancel()\<close> on it (so whatever \<^verbatim>\<open>cancel\<close> does, it runs in a world where the Mutation is
  gone from the collection and its hash has no own entry), and then broadcasts the
  cache-level notification. With the own entry gone, \<^verbatim>\<open>get\<close> of the hash gives what the
  prototype chain of the index has under that name: nothing, when the prototype is still
  \<^verbatim>\<open>Object.prototype\<close> and the hash is none of its names.
\<close>

theorem remove_order:
  "remove_with cancel m w = cache_notify (Some m) (cancel m (remove_detach m w)) \<and>
   m \<notin> set (getAll (remove_detach m w)) \<and>
   (case mutationHash (heap w ! m) of
      None \<Rightarrow> True
    | Some h \<Rightarrow>
        h = [] \<or>
        (map_of (mutationsMap (cache (remove_detach m w))) h = None \<and>
         get client h (remove_detach m w) = inherited client h (remove_detach m w) \<and>
         (mutationsMap_proto (cache w) = None \<and> h \<notin> set object_prototype_names \<longrightarrow>
            get client h (remove_detach m w) = Missing))) \<and>
   trace (remove m w) =
     trace w @ CancelCall m # map (\<lambda>l. CacheListener l (Some m)) (listeners_c (cache w))"
  by (simp add: remove_with_def Let_def remove_eq remove_detach_eq getAll_def get_def inherited_def
        AList.delete_conv' split: option.splits)

theorem remove_order_witness:
  "remove_with cancel_probe 0 world_k1 = cache_notify (Some 0) (cancel_probe 0 (remove_detach 0 world_k1)) \<and>
   getAll world_k1 = [0] \<and> getAll (remove_detach 0 world_k1) = [] \<and>
   mutationHash (heap world_k1 ! 0) = Some ''k'' \<and>
   mutationsMap_proto (cache world_k1) = None \<and> ''k'' \<notin> set object_prototype_names \<and>
   get client0 ''k'' world_k1 = Found 0 \<and> get client0 ''k'' (remove_detach 0 world_k1) = Missing \<and>
   trace (remove 0 world_k1) = [CacheListener 0 (Some 0), CancelCall 0, CacheListener 0 (Some 0)]"
  using remove_order [of cancel_probe 0 world_k1 client0] plain_k(1)
  by (simp add: world_k1_eq getAll_def get_def remove_detach_eq new_Mutation_def)

text \<open>
  C4 as the spec states it fails: on the cache that holds Mutation 0 under the hash
  \<open>''k''\<close>, a \<^verbatim>\<open>cancel\<close> that looks at the cache when it is called finds the Mutation
  neither in the collection nor in the index; the detaching came first.
\<close>

theorem remove_cancels_before_detaching_counterexample:
  "getAll world_k1 = [0] \<and> get client0 ''k'' world_k1 = Found 0 \<and>
   trace (remove_with cancel_probe 0 world_k1) =
     trace world_k1 @ [CancelProbe 0 False False, CacheListener 0 (Some 0)]"
  by (simp add: world_k1_eq getAll_def get_def remove_with_def remove_detach_eq new_Mutation_def
        cancel_probe_def emit_def cache_notify_eq Let_def)

text \<open>
  C9: called outside any batch, \<^verbatim>\<open>clear()\<close> leaves the collection empty and flushes
  the scheduler exactly once, however many Mutations there were; each Mutation is
  cancelled and announced to the cache listeners in turn, in insertion order. The same
  removals made one by one outside a batch flush once each.
\<close>

theorem clear_all:
  assumes "transactions w = 0"
  shows "getAll (clear w) = [] \<and> flushes (clear w) = flushes w + 1 \<and>
         transactions (clear w) = 0 \<and>
         trace (clear w) =
           trace w @ concat (map (\<lambda>m. CancelCall m # map (\<lambda>l. CacheListener l (Some m))
                                                      (listeners_c (cache w))) (getAll w)) \<and>
         flushes (fold remove (getAll w) w) = flushes w + length (getAll w)"
  using assms
  by (simp add: clear_def batch_def Let_def flush_def getAll_def fold_remove_mutations
        fold_remove_frame fold_remove_flushes fold_remove_trace fold_remove_flushes_unbatched)

theorem clear_witness:
  "transactions world_k2 = 0 \<and> getAll world_k2 = [0, 1] \<and> getAll (clear world_k2) = [] \<and>
   flushes (clear world_k2) = flushes world_k2 + 1 \<and>
   flushes (fold remove (getAll world_k2) world_k2) = flushes world_k2 + 2 \<and>
   trace (clear world_k2) = trace world_k2 @
     [CancelCall 0, CacheListener 0 (Some 0), CancelCall 1, CacheListener 0 (Some 1)]"
  using clear_all [of world_k2]
  by (simp add: world_k2_eq getAll_def)

text \<open>
  C10: take a cache whose index still has \<^verbatim>\<open>Object.prototype\<close> as its prototype, and a
  non-empty hash that is none of the names of \<^verbatim>\<open>Object.prototype\<close>. After two shareable
  builds with that hash the index maps the hash to the second Mutation; removing the
  first deletes that entry all the same, so \<^verbatim>\<open>get(hash)\<close> finds nothing while the second
  Mutation is still in \<^verbatim>\<open>getAll()\<close>.
\<close>

theorem remove_deletes_shared_hash_entry:
  assumes "shareable opts1 = Some True" and "mutationKey opts1 = Some k1" and "truthy_key (Some k1)"
    and "shareable opts2 = Some True" and "mutationKey opts2 = Some k2" and "truthy_key (Some k2)"
    and "hashMutationKeyByOptions client k1 opts1 = h"
    and "hashMutationKeyByOptions client k2 opts2 = h"
    and "h \<noteq> []"
    and "build client opts1 st1 w = (Returned m1, w1)"
    and "build client opts2 st2 w1 = (Returned m2, w2)"
    and "h \<notin> set object_prototype_names"
    and "mutationsMap_proto (cache w) = None"
  shows "m1 \<noteq> m2 \<and> mutationHash (heap w2 ! m1) = Some h \<and> mutationHash (heap w2 ! m2) = Some h \<and>
         get client h w2 = Found m2 \<and>
         get client h (remove m1 w2) = Missing \<and>
         m2 \<in> set (getAll (remove m1 w2)) \<and> m1 \<notin> set (getAll (remove m1 w2))"
proof -
  have hh: "hash_for_build client opts1 = Some h" "hash_for_build client opts2 = Some h"
    using assms by (simp_all add: hash_for_build_def)
  have np: "h \<noteq> ''__proto__''"
    using assms(12) by (auto simp: object_prototype_names_def)
  have m1: "m1 = length (heap w)"
    using assms(10) build_eq(1) [of client opts1 st1 w] by simp
  have w1: "w1 = snd (build client opts1 st1 w)"
    using assms(10) by simp
  have m2: "m2 = length (heap w1)"
    using assms(11) build_eq(1) [of client opts2 st2 w1] by simp
  have w2: "w2 = snd (build client opts2 st2 w1)"
    using assms(11) by simp
  have hw1: "heap w1 = heap w @ [new_Mutation (mutationId_c (cache w) + 1) (Some h)
             (defaultMutationOptions client (Some opts1)) st1 (getMutationDefaults client k1)]"
    using assms hh by (simp add: w1 build_eq)
  have hw2: "heap w2 = heap w1 @ [new_Mutation (mutationId_c (cache w1) + 1) (Some h)
             (defaultMutationOptions client (Some opts2)) st2 (getMutationDefaults client k2)]"
    using assms hh by (simp add: w2 build_eq)
  have ne: "m1 \<noteq> m2" by (simp add: m1 m2 hw1)
  have g1: "mutationHash (heap w2 ! m1) = Some h"
    by (simp add: hw2 hw1 m1 nth_append new_Mutation_def)
  have g2: "mutationHash (heap w2 ! m2) = Some h"
    by (simp add: hw2 m2 nth_append new_Mutation_def)
  have c2: "mutations (cache w2) = mutations (cache w) @ [m1, m2]"
    by (simp add: w2 w1 m1 m2 build_eq)
  have p2: "mutationsMap_proto (cache w2) = None"
    using hh assms(9) assms(13) np by (simp add: w2 w1 build_eq)
  have i2: "get client h w2 = Found m2"
    using hh assms(9) np by (simp add: get_def w2 m2 build_eq AList.update_conv')
  have r1: "get client h (remove m1 w2) = Missing"
    using g1 assms(9) assms(12) p2
    by (simp add: get_def inherited_def remove_eq remove_detach_eq AList.delete_conv')
  have r2: "m2 \<in> set (getAll (remove m1 w2))" "m1 \<notin> set (getAll (remove m1 w2))"
    using ne by (simp_all add: getAll_def remove_eq remove_detach_eq c2)
  show ?thesis using ne g1 g2 i2 r1 r2 by simp
qed

theorem remove_deletes_shared_hash_entry_witness:
  "shareable shareable_k = Some True \<and> mutationKey shareable_k = Some (KeyString ''k'') \<and>
   truthy_key (Some (KeyString ''k'')) \<and>
   hashMutationKeyByOptions client0 (KeyString ''k'') shareable_k = ''k'' \<and> ''k'' \<noteq> [] \<and>
   ''k'' \<notin> set object_prototype_names \<and> mutationsMap_proto (cache world0) = None \<and>
   build client0 shareable_k None world0 = (Returned 0, world_k1) \<and>
   build client0 shareable_k None world_k1 = (Returned 1, world_k2) \<and>
   get client0 ''k'' world_k2 = Found 1 \<and> get client0 ''k'' (remove 0 world_k2) = Missing \<and>
   getAll (remove 0 world_k2) = [1]"
proof -
  have a: "shareable shareable_k = Some True" "mutationKey shareable_k = Some (KeyString ''k'')"
    "truthy_key (Some (KeyString ''k''))"
    "hashMutationKeyByOptions client0 (KeyString ''k'') shareable_k = ''k''" "''k'' \<noteq> []"
    by (simp_all add: shareable_k_def client0_def)
  have p: "mutationsMap_proto (cache world0) = None"
    by (simp add: world0_def)
  have b1: "build client0 shareable_k None world0 = (Returned 0, world_k1)"
    using build_eq(1) [of client0 shareable_k None world0]
    by (simp add: world_k1_def world0_def prod_eq_iff)
  have b2: "build client0 shareable_k None world_k1 = (Returned 1, world_k2)"
    using build_eq(1) [of client0 shareable_k None world_k1]
    by (simp add: world_k2_def world_k1_eq prod_eq_iff)
  have g: "getAll (remove 0 world_k2) = [1]"
    by (simp add: getAll_def remove_eq remove_detach_eq world_k2_eq)
  from remove_deletes_shared_hash_entry
    [OF a(1) a(2) a(3) a(1) a(2) a(3) a(4) a(4) a(5) b1 b2 plain_k(1) p]
  show ?thesis using a b1 b2 g p plain_k(1) by simp
qed

section \<open>MutationCache.resumePausedMutations\<close>

lemma chain_run:
  "foldl (\<lambda>promise m. then_promise promise (catch_noop (Mutation_continue client m))) p ms w' =
     (case p w' of
        (Resolved, w1) \<Rightarrow> (Resolved, fold (\<lambda>m v. snd (Mutation_continue client m v)) ms w1)
      | (Rejected, w1) \<Rightarrow> (Rejected, w1))"
proof (induction ms arbitrary: p)
  case Nil
  then show ?case by (simp split: prod.splits settled.splits)
next
  case (Cons m ms)
  let ?step = "\<lambda>promise m. then_promise promise (catch_noop (Mutation_continue client m))"
  have "foldl ?step p (m # ms) w' = foldl ?step (?step p m) ms w'"
    by simp
  also have "\<dots> =
      (case ?step p m w' of
         (Resolved, w1) \<Rightarrow> (Resolved, fold (\<lambda>m v. snd (Mutation_continue client m v)) ms w1)
       | (Rejected, w1) \<Rightarrow> (Rejected, w1))"
    by (rule Cons.IH)
  also have "\<dots> =
      (case p w' of
         (Resolved, w1) \<Rightarrow> (Resolved, fold (\<lambda>m v. snd (Mutation_continue client m v)) (m # ms) w1)
       | (Rejected, w1) \<Rightarrow> (Rejected, w1))"
    by (simp add: then_promise_def catch_noop_def split: prod.splits settled.splits)
  finally show ?case .
qed

lemma continue_trace:
  "trace (fold (\<lambda>m v. snd (Mutation_continue client m v)) ms w) = trace w @ continue_calls client ms"
  by (induction ms arbitrary: w)
     (simp_all add: continue_calls_def Mutation_continue_def Let_def emit_def update_mutation_def)

lemma continue_frame:
  "cache (fold (\<lambda>m v. snd (Mutation_continue client m v)) ms w) = cache w \<and>
   flushes (fold (\<lambda>m v. snd (Mutation_continue client m v)) ms w) = flushes w \<and>
   transactions (fold (\<lambda>m v. snd (Mutation_continue client m v)) ms w) = transactions w"
  by (induction ms arbitrary: w)
     (simp_all add: Mutation_continue_def Let_def emit_def update_mutation_def)

lemma resume_fst:
  "fst (resumePausedMutations client w) =
     foldl (\<lambda>promise m. then_promise promise (catch_noop (Mutation_continue client m)))
       Promise_resolve (paused_at w)"
  by (simp add: resumePausedMutations_def batch_value_def Let_def paused_at_def)

text \<open>
  C8: the promise \<^verbatim>\<open>resumePausedMutations\<close> returns, whenever the event loop runs it
  (from any later world \<open>w'\<close>), calls \<^verbatim>\<open>continue()\<close> on exactly the Mutations that were
  paused in the world \<open>w\<close> of the call, in insertion order, each settled before the next
  is called; it goes through all of them whichever reject, and it resolves. The call
  itself makes no calls and changes neither the cache nor a Mutation. \<^verbatim>\<open>onFocus\<close> and
  \<^verbatim>\<open>onOnline\<close> are \<^verbatim>\<open>resumePausedMutations\<close>.
\<close>

theorem resumePausedMutations_sequential:
  "fst (fst (resumePausedMutations client w) w') = Resolved \<and>
   trace (snd (fst (resumePausedMutations client w) w')) =
     trace w' @ continue_calls client (paused_at w) \<and>
   getAll (snd (fst (resumePausedMutations client w) w')) = getAll w' \<and>
   trace (snd (resumePausedMutations client w)) = trace w \<and>
   cache (snd (resumePausedMutations client w)) = cache w \<and>
   heap (snd (resumePausedMutations client w)) = heap w \<and>
   onFocus client w = resumePausedMutations client w \<and>
   onOnline client w = resumePausedMutations client w"
  by (simp add: resume_fst chain_run Promise_resolve_def continue_trace continue_frame getAll_def
        onFocus_def onOnline_def)
     (simp add: resumePausedMutations_def batch_value_def Let_def flush_def)

theorem resumePausedMutations_sequential_witness:
  "paused_at world_paused = [0, 1] \<and> getAll world_paused = [0, 1, 2] \<and>
   continueRejects client0 0 \<and>
   fst (fst (resumePausedMutations client0 world_paused) world_paused) = Resolved \<and>
   trace (snd (fst (resumePausedMutations client0 world_paused) world_paused)) =
     trace world_paused @
     [ContinueCall 0, ContinueSettled 0 Rejected, ContinueCall 1, ContinueSettled 1 Resolved]"
proof -
  have p: "paused_at world_paused = [0, 1]"
    by (simp add: paused_at_def world_paused_def build_eq world_k2_eq
          update_mutation_def new_Mutation_def getDefaultState_def hash_for_build_def
          private_k_def)
  have g: "getAll world_paused = [0, 1, 2]"
    by (simp add: getAll_def world_paused_def build_eq world_k2_eq
          update_mutation_def)
  have c: "continue_calls client0 [0, 1] =
      [ContinueCall 0, ContinueSettled 0 Rejected, ContinueCall 1, ContinueSettled 1 Resolved]"
    by (simp add: continue_calls_def client0_def)
  show ?thesis
    using resumePausedMutations_sequential [of client0 world_paused world_paused] p g c
    by (simp add: client0_def)
qed

section \<open>MutationObserver: notification\<close>

lemma fold_listeners:
  "fold (\<lambda>listener w'. emit [ObserverListener ob listener (currentResult (observer_heap w' ! ob))] w') ls w =
     emit (listener_calls ob ls (currentResult (observer_heap w ! ob))) w"
  by (induction ls arbitrary: w) (simp_all add: emit_def listener_calls_def)

lemma notify_eq:
  "notify ob opts w =
     w\<lparr>flushes := (if transactions w = 0 then flushes w + 1 else flushes w),
       trace := trace w @
         (case mutateOptions (observer_heap w ! ob) of
            None \<Rightarrow> []
          | Some mo \<Rightarrow>
              if onSuccess_n opts then success_calls ob mo (currentResult (observer_heap w ! ob))
              else if onError_n opts then error_calls ob mo (currentResult (observer_heap w ! ob))
              else []) @
         (if listeners_n opts
          then listener_calls ob (listeners (observer_heap w ! ob)) (currentResult (observer_heap w ! ob))
          else [])\<rparr>"
  unfolding notify_def batch_def Let_def fold_listeners
  by (simp add: emit_def flush_def success_calls_def error_calls_def split: option.splits)

lemma updateResult_eq:
  "updateResult ob w = update_observer ob (\<lambda>this. this\<lparr>currentResult := derived_result ob w\<rparr>) w"
  by (simp add: updateResult_def derived_result_def Let_def)




lemma private_observer_constructed:
  "new_MutationObserver client0 private_k world0 =
     Ended (Returned 0)
       (world0\<lparr>observer_heap :=
          [\<lparr>options = Some private_k, currentResult = result_of 0 getDefaultState,
            currentMutation = None, mutateOptions = None, listeners = []\<rparr>]\<rparr>)"
  by (simp add: new_MutationObserver_def setOptions_def updateSharedMutation_def
        update_observer_def updateResult_def world0_def client0_def private_k_def Let_def)

lemma private_observer_subscribed:
  "subscribe 0 7 (the (ended_world (new_MutationObserver client0 private_k world0))) =
     world0\<lparr>observer_heap :=
        [\<lparr>options = Some private_k, currentResult = result_of 0 getDefaultState,
          currentMutation = None, mutateOptions = None, listeners = [7]\<rparr>]\<rparr>"
  by (simp add: private_observer_constructed subscribe_def update_observer_def)

lemma world_observed_eq:
  "world_observed =
     \<lparr>cache = \<lparr>mutations = [0], mutationsMap = [], mutationId_c = 1, listeners_c = [0],
               mutationsMap_proto = None\<rparr>,
      heap = [\<lparr>mutationId = 1, mutationHash = None,
               options_m = private_k\<lparr>variables := Val 3\<rparr>,
               state = getDefaultState, defaultOptions = None, observers_m = [0]\<rparr>],
      observer_heap =
        [\<lparr>options = Some private_k, currentResult = result_of 0 getDefaultState,
          currentMutation = Some 0, mutateOptions = Some callbacks_all, listeners = [7]\<rparr>],
      transactions = 0, flushes = 1,
      trace = [CacheListener 0 (Some 0), ExecuteCall 0]\<rparr>"
  unfolding world_observed_def private_observer_subscribed
  by (simp add: mutate_def
        update_observer_def build_def add_def cache_notify_eq update_cache_def
        removeObserver_current_def addObserver_def update_mutation_def Mutation_execute_def
        emit_def world0_def client0_def private_k_def hash_for_build_def new_Mutation_def Let_def)


section \<open>MutationObserver.reset\<close>

text \<open>
  C5 does not hold of the code: \<^verbatim>\<open>reset\<close> clears the observer's reference but never
  calls \<^verbatim>\<open>removeObserver\<close>. Observer 0, bound by \<^verbatim>\<open>mutate\<close> to Mutation 0, is still
  in the observer set of Mutation 0 after \<^verbatim>\<open>reset()\<close>.
\<close>

theorem reset_leaves_observer_registered:
  "currentMutation (observer_heap world_observed ! 0) = Some 0 \<and>
   observers_m (heap world_observed ! 0) = [0] \<and>
   currentMutation (observer_heap (reset 0 world_observed) ! 0) = None \<and>
   observers_m (heap (reset 0 world_observed) ! 0) = [0]"
  by (simp add: world_observed_eq reset_def Let_def notify_eq updateResult_eq update_observer_def)

section \<open>MutationObserver.setOptions\<close>

lemma shared_observer_constructed:
  "new_MutationObserver client0 shareable_k world0 =
     Ended (Returned 0)
       (world0\<lparr>observer_heap :=
          [\<lparr>options = Some shareable_k, currentResult = result_of 0 getDefaultState,
            currentMutation = None, mutateOptions = None, listeners = []\<rparr>]\<rparr>)"
  by (simp add: new_MutationObserver_def setOptions_def updateSharedMutation_def
        update_observer_def updateResult_def get_def inherited_def object_prototype_names_def
        world0_def client0_def shareable_k_def Let_def)

lemma world_shared_eq:
  "world_shared =
     world0\<lparr>observer_heap :=
        [\<lparr>options = Some shareable_k, currentResult = result_of 0 getDefaultState,
          currentMutation = None, mutateOptions = None, listeners = []\<rparr>]\<rparr>"
  by (simp add: world_shared_def shared_observer_constructed)

lemma setOptions_changed_flag:
  assumes "options (observer_heap w ! ob) = Some prev"
    and "shareable prev \<noteq> (case opts of None \<Rightarrow> None | Some x \<Rightarrow> shareable x)"
  shows "setOptions client ob opts w =
           Ended (Threw ShareableChanged)
             (update_observer ob
                (\<lambda>this. this\<lparr>options := Some (defaultMutationOptions client opts)\<rparr>) w)"
  using assms by (simp add: setOptions_def Let_def)

lemma flag_changed_call:
  "setOptions client0 0 (Some private_k) world_shared =
     Ended (Threw ShareableChanged)
       (world0\<lparr>observer_heap :=
          [\<lparr>options = Some private_k, currentResult = result_of 0 getDefaultState,
            currentMutation = None, mutateOptions = None, listeners = []\<rparr>]\<rparr>)"
proof -
  have a: "options (observer_heap world_shared ! 0) = Some shareable_k"
    by (simp add: world_shared_eq)
  have b: "shareable shareable_k \<noteq> (case Some private_k of None \<Rightarrow> None | Some x \<Rightarrow> shareable x)"
    by (simp add: shareable_k_def private_k_def)
  show ?thesis
    unfolding setOptions_changed_flag [OF a b]
    by (simp add: world_shared_eq update_observer_def client0_def)
qed

lemma world_flag_changed_eq:
  "world_flag_changed =
     world0\<lparr>observer_heap :=
        [\<lparr>options = Some private_k, currentResult = result_of 0 getDefaultState,
          currentMutation = None, mutateOptions = None, listeners = []\<rparr>]\<rparr>"
  by (simp add: world_flag_changed_def flag_changed_call)

lemma flag_changed_call_again:
  "setOptions client0 0 (Some private_k) world_flag_changed = Ended (Returned ()) world_flag_changed"
  unfolding world_flag_changed_eq
  by (simp add: setOptions_def updateSharedMutation_def update_observer_def
        client0_def private_k_def Let_def)

lemma flag_changed_call_back:
  "setOptions client0 0 (Some shareable_k) world_flag_changed =
     Ended (Threw ShareableChanged) world_shared"
proof -
  have a: "options (observer_heap world_flag_changed ! 0) = Some private_k"
    by (simp add: world_flag_changed_eq)
  have b: "shareable private_k \<noteq> (case Some shareable_k of None \<Rightarrow> None | Some x \<Rightarrow> shareable x)"
    by (simp add: shareable_k_def private_k_def)
  show ?thesis
    unfolding setOptions_changed_flag [OF a b]
    by (simp add: world_shared_eq world_flag_changed_eq update_observer_def client0_def)
qed

text \<open>
  C7 does not hold of the code. \<^verbatim>\<open>setOptions\<close> does throw the configuration error when
  the \<^verbatim>\<open>shareable\<close> it is given differs from the stored one, and the call ends there,
  nothing being tried again. But the flag is not fixed by that: the new options are
  stored before the comparison, so the call that throws has changed the flag. On the
  observer constructed with \<^verbatim>\<open>shareable = true\<close>, \<^verbatim>\<open>setOptions\<close> with
  \<^verbatim>\<open>shareable = false\<close> throws and leaves \<^verbatim>\<open>shareable = false\<close> stored; the same call
  repeated returns without an error; and \<^verbatim>\<open>setOptions\<close> with the value the flag was
  first given, \<^verbatim>\<open>true\<close>, is now the call that throws.
\<close>

theorem setOptions_overwrites_shareable:
  "new_MutationObserver client0 shareable_k world0 = Ended (Returned 0) world_shared \<and>
   options (observer_heap world_shared ! 0) = Some shareable_k \<and>
   shareable shareable_k = Some True \<and> shareable private_k = Some False \<and>
   setOptions client0 0 (Some private_k) world_shared =
     Ended (Threw ShareableChanged) world_flag_changed \<and>
   options (observer_heap world_flag_changed ! 0) = Some private_k \<and>
   setOptions client0 0 (Some private_k) world_flag_changed =
     Ended (Returned ()) world_flag_changed_again \<and>
   options (observer_heap world_flag_changed_again ! 0) = Some private_k \<and>
   setOptions client0 0 (Some shareable_k) world_flag_changed =
     Ended (Threw ShareableChanged) world_shared"
proof -
  have "world_flag_changed_again = world_flag_changed"
    by (simp add: world_flag_changed_again_def flag_changed_call_again)
  moreover have "setOptions client0 0 (Some private_k) world_shared =
      Ended (Threw ShareableChanged) world_flag_changed"
    by (simp add: flag_changed_call world_flag_changed_eq)
  moreover have "new_MutationObserver client0 shareable_k world0 = Ended (Returned 0) world_shared"
    by (simp add: shared_observer_constructed world_shared_eq)
  moreover have "options (observer_heap world_shared ! 0) = Some shareable_k"
    "options (observer_heap world_flag_changed ! 0) = Some private_k"
    by (simp_all add: world_shared_eq world_flag_changed_eq)
  moreover have "shareable shareable_k = Some True" "shareable private_k = Some False"
    by (simp_all add: shareable_k_def private_k_def)
  ultimately show ?thesis
    by (simp add: flag_changed_call_again flag_changed_call_back)
qed

section \<open>MutationObserver.mutate\<close>

lemma build_returns:
  "build client opts st w = (Returned (length (heap w)), snd (build client opts st w))"
  by (simp add: prod_eq_iff build_eq(1))

lemma mutate_detached:
  assumes "ob < length (observer_heap w)"
  shows "heap (removeObserver_current ob
                 (update_observer ob (\<lambda>this. this\<lparr>mutateOptions := callOptions\<rparr>) w)) =
           detached_heap ob w"
    and "observer_heap (removeObserver_current ob
                 (update_observer ob (\<lambda>this. this\<lparr>mutateOptions := callOptions\<rparr>) w)) =
           (observer_heap w)[ob := (observer_heap w ! ob)\<lparr>mutateOptions := callOptions\<rparr>]"
    and "cache (removeObserver_current ob
                 (update_observer ob (\<lambda>this. this\<lparr>mutateOptions := callOptions\<rparr>) w)) = cache w"
    and "transactions (removeObserver_current ob
                 (update_observer ob (\<lambda>this. this\<lparr>mutateOptions := callOptions\<rparr>) w)) =
           transactions w"
    and "flushes (removeObserver_current ob
                 (update_observer ob (\<lambda>this. this\<lparr>mutateOptions := callOptions\<rparr>) w)) = flushes w"
    and "trace (removeObserver_current ob
                 (update_observer ob (\<lambda>this. this\<lparr>mutateOptions := callOptions\<rparr>) w)) = trace w"
  using assms
  by (simp_all add: detached_heap_def update_observer_def removeObserver_current_def
        removeObserver_def update_mutation_def split: option.splits)

lemma mutate_unfold:
  assumes "ob < length (observer_heap w)" and "options (observer_heap w ! ob) = Some opts"
  shows "mutate client ob vars callOptions w =
           (Returned (length (heap w)),
            Mutation_execute (length (heap w))
              (addObserver ob (length (heap w))
                 (update_observer ob (\<lambda>this. this\<lparr>currentMutation := Some (length (heap w))\<rparr>)
                    (snd (build client (build_options opts vars) None
                       (removeObserver_current ob
                          (update_observer ob (\<lambda>this. this\<lparr>mutateOptions := callOptions\<rparr>) w)))))))"
proof -
  let ?w2 = "removeObserver_current ob
               (update_observer ob (\<lambda>this. this\<lparr>mutateOptions := callOptions\<rparr>) w)"
  have l: "length (heap ?w2) = length (heap w)"
    using assms(1) by (simp add: mutate_detached(1) detached_heap_def split: option.splits)
  have o2: "options (observer_heap ?w2 ! ob) = Some opts"
    using assms by (simp add: mutate_detached(2))
  obtain w3 where b: "build client (build_options opts vars) None ?w2 = (Returned (length (heap w)), w3)"
    using build_returns [of client "build_options opts vars" None ?w2] by (simp add: l)
  show ?thesis
    using o2 b by (simp add: mutate_def Let_def build_options_def)
qed

lemma mutate_eq:
  assumes "ob < length (observer_heap w)" and "options (observer_heap w ! ob) = Some opts"
  shows "fst (mutate client ob vars callOptions w) = Returned (length (heap w))"
    and "mutationId_c (cache (snd (mutate client ob vars callOptions w))) = mutationId_c (cache w) + 1"
    and "heap (snd (mutate client ob vars callOptions w)) =
           detached_heap ob w @
           [(new_Mutation (mutationId_c (cache w) + 1)
              (hash_for_build client (build_options opts vars))
              (defaultMutationOptions client (Some (build_options opts vars))) None
              (case mutationKey opts of
                 None \<Rightarrow> None
               | Some k \<Rightarrow> if truthy_key (Some k) then getMutationDefaults client k else None))
            \<lparr>observers_m := [ob]\<rparr>]"
    and "observer_heap (snd (mutate client ob vars callOptions w)) =
           (observer_heap w)
             [ob := (observer_heap w ! ob)\<lparr>mutateOptions := callOptions,
                                           currentMutation := Some (length (heap w))\<rparr>]"
    and "transactions (snd (mutate client ob vars callOptions w)) = transactions w"
    and "flushes (snd (mutate client ob vars callOptions w)) =
           (if transactions w = 0 then flushes w + 1 else flushes w)"
    and "trace (snd (mutate client ob vars callOptions w)) =
           trace w @ map (\<lambda>l. CacheListener l (Some (length (heap w)))) (listeners_c (cache w)) @
           [ExecuteCall (length (heap w))]"
    and "mutations (cache (snd (mutate client ob vars callOptions w))) =
           mutations (cache w) @ [length (heap w)]"
    and "listeners_c (cache (snd (mutate client ob vars callOptions w))) = listeners_c (cache w)"
    and "mutationsMap (cache (snd (mutate client ob vars callOptions w))) =
           (case hash_for_build client (build_options opts vars) of
              None \<Rightarrow> mutationsMap (cache w)
            | Some h \<Rightarrow>
                if h \<noteq> [] \<and> \<not> (h = ''__proto__'' \<and> map_of (mutationsMap (cache w)) h = None)
                then AList.update h (length (heap w)) (mutationsMap (cache w))
                else mutationsMap (cache w))"
    and "mutationsMap_proto (cache (snd (mutate client ob vars callOptions w))) =
           (case hash_for_build client (build_options opts vars) of
              None \<Rightarrow> mutationsMap_proto (cache w)
            | Some h \<Rightarrow>
                if h = ''__proto__'' \<and> map_of (mutationsMap (cache w)) h = None
                then Some (length (heap w))
                else mutationsMap_proto (cache w))"
proof -
  have l: "length (detached_heap ob w) = length (heap w)"
    by (simp add: detached_heap_def split: option.splits)
  have k: "mutationKey (build_options opts vars) = mutationKey opts"
    by (simp add: build_options_def)
  note u = mutate_unfold [OF assms, of client vars callOptions]
  note d = mutate_detached [OF assms(1), of callOptions, unfolded update_observer_def]
  show "fst (mutate client ob vars callOptions w) = Returned (length (heap w))"
    by (simp add: u)
  show "mutationId_c (cache (snd (mutate client ob vars callOptions w))) = mutationId_c (cache w) + 1"
    by (simp add: u Mutation_execute_def emit_def addObserver_def update_mutation_def
          update_observer_def build_eq d)
  show "heap (snd (mutate client ob vars callOptions w)) =
           detached_heap ob w @
           [(new_Mutation (mutationId_c (cache w) + 1)
              (hash_for_build client (build_options opts vars))
              (defaultMutationOptions client (Some (build_options opts vars))) None
              (case mutationKey opts of
                 None \<Rightarrow> None
               | Some k \<Rightarrow> if truthy_key (Some k) then getMutationDefaults client k else None))
            \<lparr>observers_m := [ob]\<rparr>]"
    using l
    by (simp add: u Mutation_execute_def emit_def addObserver_def update_mutation_def
          update_observer_def build_eq d k new_Mutation_def nth_append list_update_append)
  show "observer_heap (snd (mutate client ob vars callOptions w)) =
           (observer_heap w)
             [ob := (observer_heap w ! ob)\<lparr>mutateOptions := callOptions,
                                           currentMutation := Some (length (heap w))\<rparr>]"
    using assms(1)
    by (simp add: u Mutation_execute_def emit_def addObserver_def update_mutation_def
          update_observer_def build_eq d)
  show "transactions (snd (mutate client ob vars callOptions w)) = transactions w"
    by (simp add: u Mutation_execute_def emit_def addObserver_def update_mutation_def
          update_observer_def build_eq d)
  show "flushes (snd (mutate client ob vars callOptions w)) =
           (if transactions w = 0 then flushes w + 1 else flushes w)"
    by (simp add: u Mutation_execute_def emit_def addObserver_def update_mutation_def
          update_observer_def build_eq d)
  show "trace (snd (mutate client ob vars callOptions w)) =
           trace w @ map (\<lambda>l. CacheListener l (Some (length (heap w)))) (listeners_c (cache w)) @
           [ExecuteCall (length (heap w))]"
    using l
    by (simp add: u Mutation_execute_def emit_def addObserver_def update_mutation_def
          update_observer_def build_eq d)
  show "mutations (cache (snd (mutate client ob vars callOptions w))) =
           mutations (cache w) @ [length (heap w)]"
    using l
    by (simp add: u Mutation_execute_def emit_def addObserver_def update_mutation_def
          update_observer_def build_eq d)
  show "listeners_c (cache (snd (mutate client ob vars callOptions w))) = listeners_c (cache w)"
    by (simp add: u Mutation_execute_def emit_def addObserver_def update_mutation_def
          update_observer_def build_eq d)
  show "mutationsMap (cache (snd (mutate client ob vars callOptions w))) =
           (case hash_for_build client (build_options opts vars) of
              None \<Rightarrow> mutationsMap (cache w)
            | Some h \<Rightarrow>
                if h \<noteq> [] \<and> \<not> (h = ''__proto__'' \<and> map_of (mutationsMap (cache w)) h = None)
                then AList.update h (length (heap w)) (mutationsMap (cache w))
                else mutationsMap (cache w))"
    using l
    by (auto simp: u Mutation_execute_def emit_def addObserver_def update_mutation_def
          update_observer_def build_eq d split: option.splits)
  show "mutationsMap_proto (cache (snd (mutate client ob vars callOptions w))) =
           (case hash_for_build client (build_options opts vars) of
              None \<Rightarrow> mutationsMap_proto (cache w)
            | Some h \<Rightarrow>
                if h = ''__proto__'' \<and> map_of (mutationsMap (cache w)) h = None
                then Some (length (heap w))
                else mutationsMap_proto (cache w))"
    using l
    by (auto simp: u Mutation_execute_def emit_def addObserver_def update_mutation_def
          update_observer_def build_eq d split: option.splits)
qed

lemma detached_heap_length: "length (detached_heap ob w) = length (heap w)"
  by (simp add: detached_heap_def split: option.splits)

lemma get_after_set:
  assumes "mutationsMap (cache w') =
             (if \<not> (h = ''__proto__'' \<and> map_of (mutationsMap (cache w)) h = None)
              then AList.update h m (mutationsMap (cache w)) else mutationsMap (cache w))"
    and "mutationsMap_proto (cache w') =
             (if h = ''__proto__'' \<and> map_of (mutationsMap (cache w)) h = None
              then Some m else mutationsMap_proto (cache w))"
  shows "get client h w' = Found m"
  using assms by (simp add: get_def inherited_def update_conv' split: if_splits)

text \<open>
  C2: two successive \<^verbatim>\<open>mutate\<close> calls on an observer (one that holds options, as every
  constructed observer does) each build a new Mutation: the first gets the id one above
  the cache's counter, the second the id two above it. Each call first takes the observer
  out of the observer set of the Mutation it was bound to, so after the second call the
  observer is bound to the second Mutation only. When the options handed to \<^verbatim>\<open>build\<close>
  yield a (non-empty) hash, whatever the index held for it, \<^verbatim>\<open>get\<close> of that hash is the
  second Mutation afterwards.
\<close>

theorem mutate_builds_fresh_mutation:
  assumes "ob < length (observer_heap w)" and "options (observer_heap w ! ob) = Some opts"
    and "mutate client ob vars1 callOptions1 w = (r1, w1)"
    and "mutate client ob vars2 callOptions2 w1 = (r2, w2)"
  shows "r1 = Returned (length (heap w)) \<and> r2 = Returned (length (heap w) + 1) \<and>
         mutationId (heap w2 ! length (heap w)) = mutationId_c (cache w) + 1 \<and>
         mutationId (heap w2 ! (length (heap w) + 1)) = mutationId_c (cache w) + 2 \<and>
         currentMutation (observer_heap w1 ! ob) = Some (length (heap w)) \<and>
         ob \<in> set (observers_m (heap w1 ! length (heap w))) \<and>
         currentMutation (observer_heap w2 ! ob) = Some (length (heap w) + 1) \<and>
         ob \<notin> set (observers_m (heap w2 ! length (heap w))) \<and>
         ob \<in> set (observers_m (heap w2 ! (length (heap w) + 1))) \<and>
         (\<forall>m0. currentMutation (observer_heap w ! ob) = Some m0 \<and> m0 < length (heap w) \<longrightarrow>
               ob \<notin> set (observers_m (heap w1 ! m0))) \<and>
         (\<forall>h. hash_for_build client (build_options opts vars2) = Some h \<and> h \<noteq> [] \<longrightarrow>
              mutationHash (heap w2 ! (length (heap w) + 1)) = Some h \<and>
              get client h w2 = Found (length (heap w) + 1))"
proof -
  have w1: "w1 = snd (mutate client ob vars1 callOptions1 w)"
    and r1: "r1 = fst (mutate client ob vars1 callOptions1 w)"
    using assms(3) by simp_all
  have w2: "w2 = snd (mutate client ob vars2 callOptions2 w1)"
    and r2: "r2 = fst (mutate client ob vars2 callOptions2 w1)"
    using assms(4) by simp_all
  note e1 = mutate_eq [OF assms(1) assms(2), of client vars1 callOptions1, folded w1 r1]
  have ob1: "ob < length (observer_heap w1)"
    using assms(1) by (simp add: e1(4))
  have o1: "options (observer_heap w1 ! ob) = Some opts"
    using assms(1) assms(2) by (simp add: e1(4))
  note e2 = mutate_eq [OF ob1 o1, of client vars2 callOptions2, folded w2 r2]
  have l1: "length (heap w1) = length (heap w) + 1"
    by (simp add: e1(3) detached_heap_length)
  have c1: "currentMutation (observer_heap w1 ! ob) = Some (length (heap w))"
    using assms(1) by (simp add: e1(4))
  have c2: "currentMutation (observer_heap w2 ! ob) = Some (length (heap w) + 1)"
    using ob1 by (simp add: e2(4) l1)
  have h1: "heap w1 ! length (heap w) =
      (new_Mutation (mutationId_c (cache w) + 1)
              (hash_for_build client (build_options opts vars1))
              (defaultMutationOptions client (Some (build_options opts vars1))) None
              (case mutationKey opts of
                 None \<Rightarrow> None
               | Some k \<Rightarrow> if truthy_key (Some k) then getMutationDefaults client k else None))
            \<lparr>observers_m := [ob]\<rparr>"
    by (simp add: e1(3) nth_append detached_heap_length)
  have d2: "detached_heap ob w1 ! length (heap w) =
      (heap w1 ! length (heap w))\<lparr>observers_m := []\<rparr>"
    using l1 by (simp add: detached_heap_def c1 h1)
  have h2a: "heap w2 ! length (heap w) = (heap w1 ! length (heap w))\<lparr>observers_m := []\<rparr>"
    using l1 by (simp add: e2(3) nth_append detached_heap_length d2)
  have h2b: "heap w2 ! (length (heap w) + 1) =
      (new_Mutation (mutationId_c (cache w1) + 1)
              (hash_for_build client (build_options opts vars2))
              (defaultMutationOptions client (Some (build_options opts vars2))) None
              (case mutationKey opts of
                 None \<Rightarrow> None
               | Some k \<Rightarrow> if truthy_key (Some k) then getMutationDefaults client k else None))
            \<lparr>observers_m := [ob]\<rparr>"
    using l1 by (simp add: e2(3) nth_append detached_heap_length)
  have id1: "mutationId_c (cache w1) = mutationId_c (cache w) + 1"
    by (simp add: e1(2))
  have old: "\<forall>m0. currentMutation (observer_heap w ! ob) = Some m0 \<and> m0 < length (heap w) \<longrightarrow>
               ob \<notin> set (observers_m (heap w1 ! m0))"
    by (simp add: e1(3) nth_append detached_heap_length detached_heap_def)
  have idx: "\<forall>h. hash_for_build client (build_options opts vars2) = Some h \<and> h \<noteq> [] \<longrightarrow>
              mutationHash (heap w2 ! (length (heap w) + 1)) = Some h \<and>
              get client h w2 = Found (length (heap w) + 1)"
  proof (intro allI impI, elim conjE)
    fix h assume h: "hash_for_build client (build_options opts vars2) = Some h" and ne: "h \<noteq> []"
    have a: "mutationHash (heap w2 ! (length (heap w) + 1)) = Some h"
      using h2b h by (simp add: new_Mutation_def)
    have b: "get client h w2 = Found (length (heap w1))"
      by (rule get_after_set [of w2 h w1]) (simp_all add: e2(10) e2(11) h ne)
    show "mutationHash (heap w2 ! (length (heap w) + 1)) = Some h \<and>
          get client h w2 = Found (length (heap w) + 1)"
      using a b l1 by simp
  qed
  show ?thesis
    using e1(1) e2(1) l1 c1 c2 old idx h1 h2a h2b
    by (simp add: id1 new_Mutation_def)
qed

lemma shared_bound_constructed:
  "new_MutationObserver client0 shareable_k world_k1 =
     Ended (Returned 0)
     \<lparr>cache = \<lparr>mutations = [0], mutationsMap = [(''k'', 0)], mutationId_c = 1, listeners_c = [0],
               mutationsMap_proto = None\<rparr>,
      heap = [(new_Mutation 1 (Some ''k'') shareable_k None None)\<lparr>observers_m := [0]\<rparr>],
      observer_heap =
        [\<lparr>options = Some shareable_k, currentResult = result_of 0 getDefaultState,
          currentMutation = Some 0, mutateOptions = None, listeners = []\<rparr>],
      transactions = 0, flushes = 1, trace = [CacheListener 0 (Some 0)]\<rparr>"
  unfolding world_k1_eq
  by (simp add: new_MutationObserver_def setOptions_def
        updateSharedMutation_def rebind_def update_observer_def updateResult_def get_def
        removeObserver_current_def addObserver_current_def addObserver_def update_mutation_def
        client0_def shareable_k_def new_Mutation_def Let_def)

lemma world_shared_bound_eq:
  "world_shared_bound =
     \<lparr>cache = \<lparr>mutations = [0], mutationsMap = [(''k'', 0)], mutationId_c = 1, listeners_c = [0],
               mutationsMap_proto = None\<rparr>,
      heap = [(new_Mutation 1 (Some ''k'') shareable_k None None)\<lparr>observers_m := [0]\<rparr>],
      observer_heap =
        [\<lparr>options = Some shareable_k, currentResult = result_of 0 getDefaultState,
          currentMutation = Some 0, mutateOptions = None, listeners = []\<rparr>],
      transactions = 0, flushes = 1, trace = [CacheListener 0 (Some 0)]\<rparr>"
  by (simp add: world_shared_bound_def shared_bound_constructed)

lemma world_shared_bound_ok:
  "registered world_shared_bound" "index_valid world_shared_bound"
  "0 < length (observer_heap world_shared_bound)"
  "options (observer_heap world_shared_bound ! 0) = Some shareable_k"
  by (simp_all add: world_shared_bound_eq registered_def registered_at_def index_valid_def)

theorem mutate_builds_fresh_mutation_witness:
  "0 < length (observer_heap world_shared_bound) \<and>
   options (observer_heap world_shared_bound ! 0) = Some shareable_k \<and>
   currentMutation (observer_heap world_shared_bound ! 0) = Some 0 \<and>
   get client0 ''k'' world_shared_bound = Found 0 \<and>
   mutate client0 0 Undefined None world_shared_bound = (Returned 1, world_mutated_once) \<and>
   mutate client0 0 Undefined None world_mutated_once = (Returned 2, world_mutated_twice) \<and>
   mutationId (heap world_mutated_twice ! 1) = 2 \<and>
   mutationId (heap world_mutated_twice ! 2) = 3 \<and>
   0 \<notin> set (observers_m (heap world_mutated_once ! 0)) \<and>
   0 \<notin> set (observers_m (heap world_mutated_twice ! 1)) \<and>
   0 \<in> set (observers_m (heap world_mutated_twice ! 2)) \<and>
   currentMutation (observer_heap world_mutated_twice ! 0) = Some 2 \<and>
   get client0 ''k'' world_mutated_twice = Found 2"
proof -
  have a1: "mutate client0 0 Undefined None world_shared_bound =
      (fst (mutate client0 0 Undefined None world_shared_bound), world_mutated_once)"
    by (simp add: world_mutated_once_def)
  have a2: "mutate client0 0 Undefined None world_mutated_once =
      (fst (mutate client0 0 Undefined None world_mutated_once), world_mutated_twice)"
    by (simp add: world_mutated_twice_def)
  have h: "hash_for_build client0 (build_options shareable_k Undefined) = Some ''k''"
    by (simp add: hash_for_build_def build_options_def shareable_k_def client0_def)
  have w: "length (heap world_shared_bound) = 1" "mutationId_c (cache world_shared_bound) = 1"
    "currentMutation (observer_heap world_shared_bound ! 0) = Some 0"
    "get client0 ''k'' world_shared_bound = Found 0"
    by (simp_all add: world_shared_bound_eq get_def)
  from mutate_builds_fresh_mutation [OF world_shared_bound_ok(3) world_shared_bound_ok(4) a1 a2]
  show ?thesis
    using world_shared_bound_ok(3) world_shared_bound_ok(4) a1 a2
    by (simp add: h w numeral_2_eq_2 numeral_3_eq_3)
qed

section \<open>The binding invariant\<close>

lemma nth_list_update_in: "j < length xs \<Longrightarrow> xs[i := x] ! j = (if i = j then x else xs ! j)"
  by (cases "i = j") simp_all

lemma detached_heap_other:
  "m < length (heap w) \<Longrightarrow> x \<noteq> ob \<Longrightarrow>
   x \<in> set (observers_m (detached_heap ob w ! m)) \<longleftrightarrow> x \<in> set (observers_m (heap w ! m))"
  by (auto simp: detached_heap_def nth_list_update_in split: option.splits)

lemma detached_heap_self:
  "currentMutation (observer_heap w ! ob) = Some m0 \<Longrightarrow> m0 < length (heap w) \<Longrightarrow>
   ob \<notin> set (observers_m (detached_heap ob w ! m0))"
  by (simp add: detached_heap_def)

lemma rebound_heap_length: "length (rebound_heap ob m' w) = length (heap w)"
  by (simp add: rebound_heap_def detached_heap_length split: option.splits)

lemma rebound_heap_other:
  "m < length (heap w) \<Longrightarrow> x \<noteq> ob \<Longrightarrow>
   x \<in> set (observers_m (rebound_heap ob m' w ! m)) \<longleftrightarrow> x \<in> set (observers_m (heap w ! m))"
  by (auto simp: rebound_heap_def detached_heap_other detached_heap_length nth_list_update_in
      split: option.splits)

lemma rebound_heap_new:
  "m < length (heap w) \<Longrightarrow> ob \<in> set (observers_m (rebound_heap ob (Some m) w ! m))"
  by (simp add: rebound_heap_def detached_heap_length)

lemma rebound_heap_old:
  "currentMutation (observer_heap w ! ob) = Some m0 \<Longrightarrow> m0 < length (heap w) \<Longrightarrow> m' \<noteq> Some m0 \<Longrightarrow>
   ob \<notin> set (observers_m (rebound_heap ob m' w ! m0))"
  by (auto simp: rebound_heap_def detached_heap_self detached_heap_length nth_list_update_in
      split: option.splits)

lemma removeObserver_current_eq:
  "removeObserver_current ob w = w\<lparr>heap := detached_heap ob w\<rparr>"
  by (simp add: removeObserver_current_def detached_heap_def removeObserver_def update_mutation_def
      split: option.splits)

lemma rebind_proj:
  assumes "ob < length (observer_heap w)"
  shows "heap (rebind ob m' w) = rebound_heap ob m' w"
    and "cache (rebind ob m' w) = cache w"
    and "observer_heap (rebind ob m' w) =
           (observer_heap w)[ob := (observer_heap w ! ob)
              \<lparr>currentMutation := m',
               currentResult := derived_result ob (w\<lparr>heap := rebound_heap ob m' w,
                   observer_heap := (observer_heap w)[ob := (observer_heap w ! ob)\<lparr>currentMutation := m'\<rparr>]\<rparr>)\<rparr>]"
    and "trace (rebind ob m' w) = trace w"
    and "transactions (rebind ob m' w) = transactions w"
    and "flushes (rebind ob m' w) = flushes w"
  using assms
  by (simp_all add: rebind_def updateResult_eq addObserver_current_def removeObserver_current_eq
      update_observer_def addObserver_def update_mutation_def rebound_heap_def derived_result_def
      split: option.splits)

lemma registeredD:
  "registered w \<Longrightarrow> ob < length (observer_heap w) \<Longrightarrow> currentMutation (observer_heap w ! ob) = Some m \<Longrightarrow>
   m < length (heap w) \<and> ob \<in> set (observers_m (heap w ! m))"
proof -
  assume r: "registered w" and l: "ob < length (observer_heap w)"
    and c: "currentMutation (observer_heap w ! ob) = Some m"
  from r l have "registered_at w ob" by (simp add: registered_def)
  then show ?thesis by (simp add: registered_at_def c)
qed

lemma registeredI:
  assumes "\<And>ob m. ob < length (observer_heap w) \<Longrightarrow> currentMutation (observer_heap w ! ob) = Some m \<Longrightarrow>
             m < length (heap w) \<and> ob \<in> set (observers_m (heap w ! m))"
  shows "registered w"
  using assms by (auto simp: registered_def registered_at_def split: option.splits)

lemma index_validD: "index_valid w \<Longrightarrow> get client h w = Found m \<Longrightarrow> m < length (heap w)"
  by (auto simp: index_valid_def get_def inherited_def
      split: option.splits if_splits property.splits dest: map_of_SomeD)

lemma get_plain:
  "mutationsMap_proto (cache w) = None \<Longrightarrow> h \<notin> set object_prototype_names \<Longrightarrow>
   get client h w \<noteq> Foreign"
  by (simp add: get_def inherited_def split: option.splits)

lemma rebind_registered:
  assumes "registered w" and "ob < length (observer_heap w)"
    and "\<And>m. m' = Some m \<Longrightarrow> m < length (heap w)"
  shows "registered (rebind ob m' w)"
proof (rule registeredI)
  fix ob' m
  assume lt: "ob' < length (observer_heap (rebind ob m' w))"
    and cm: "currentMutation (observer_heap (rebind ob m' w) ! ob') = Some m"
  note p = rebind_proj [OF assms(2), of m']
  have lt': "ob' < length (observer_heap w)" using lt by (simp add: p(3))
  show "m < length (heap (rebind ob m' w)) \<and> ob' \<in> set (observers_m (heap (rebind ob m' w) ! m))"
  proof (cases "ob' = ob")
    case True
    then have "m' = Some m" using cm assms(2) by (simp add: p(3))
    then show ?thesis
      using assms(3) [of m] p(1) True by (simp add: rebound_heap_length rebound_heap_new)
  next
    case False
    then have "currentMutation (observer_heap w ! ob') = Some m" using cm by (simp add: p(3))
    from registeredD [OF assms(1) lt' this] False
    show ?thesis by (simp add: p(1) rebound_heap_length rebound_heap_other)
  qed
qed

lemma index_valid_cong:
  "index_valid w \<Longrightarrow> mutationsMap (cache w') = mutationsMap (cache w) \<Longrightarrow>
   mutationsMap_proto (cache w') = mutationsMap_proto (cache w) \<Longrightarrow>
   length (heap w) \<le> length (heap w') \<Longrightarrow> index_valid w'"
  by (fastforce simp: index_valid_def split: option.splits)

lemma let_go_together_same:
  "currentMutation (observer_heap w' ! ob) = currentMutation (observer_heap w ! ob) \<Longrightarrow>
   let_go_together ob w w'"
  by (simp add: let_go_together_def split: option.splits)

lemma rebind_kept:
  assumes "registered w" and "index_valid w" and "ob < length (observer_heap w)"
    and "\<And>m. m' = Some m \<Longrightarrow> m < length (heap w)"
  shows "registered (rebind ob m' w) \<and> index_valid (rebind ob m' w) \<and>
         let_go_together ob w (rebind ob m' w)"
proof (intro conjI)
  note p = rebind_proj [OF assms(3), of m']
  show "registered (rebind ob m' w)"
    using assms(1) assms(3) assms(4) by (rule rebind_registered)
  show "index_valid (rebind ob m' w)"
    using assms(2) by (rule index_valid_cong) (simp_all add: p rebound_heap_length)
  show "let_go_together ob w (rebind ob m' w)"
  proof (cases "currentMutation (observer_heap w ! ob)")
    case None
    then show ?thesis by (simp add: let_go_together_def)
  next
    case (Some m0)
    have m0: "m0 < length (heap w)"
      using registeredD [OF assms(1) assms(3) Some] by simp
    show ?thesis
    proof (cases "m' = Some m0")
      case True
      then show ?thesis using Some assms(3) p(3) by (simp add: let_go_together_def)
    next
      case False
      from rebound_heap_old [OF Some m0 False]
      show ?thesis using Some by (simp add: let_go_together_def p(1))
    qed
  qed
qed

lemma updateSharedMutation_cases:
  assumes "options (observer_heap w ! ob) = Some opts"
  shows "(updateSharedMutation client ob w = Escaped TypeError \<and>
          (\<exists>k. mutationKey opts = Some k \<and>
               get client (hashMutationKeyByOptions client k opts) w = Foreign)) \<or>
         (\<exists>r. updateSharedMutation client ob w = Ended r w) \<or>
         (\<exists>m'. (\<forall>m. m' = Some m \<longrightarrow> (\<exists>h. get client h w = Found m)) \<and>
               updateSharedMutation client ob w = Ended (Returned ()) (rebind ob m' w))"
proof (cases "truthy_flag (shareable opts)")
  case False
  then show ?thesis using assms by (simp add: updateSharedMutation_def)
next
  case flag: True
  show ?thesis
  proof (cases "mutationKey opts")
    case None
    then show ?thesis using assms flag by (simp add: updateSharedMutation_def)
  next
    case (Some k)
    show ?thesis
    proof (cases "truthy_key (Some k)")
      case False
      then show ?thesis using assms flag Some by (simp add: updateSharedMutation_def)
    next
      case key: True
      let ?h = "hashMutationKeyByOptions client k opts"
      show ?thesis
      proof (cases "get client ?h w")
        case Missing
        then have "updateSharedMutation client ob w = Ended (Returned ()) w \<or>
            updateSharedMutation client ob w = Ended (Returned ()) (rebind ob None w)"
          using assms flag Some key by (simp add: updateSharedMutation_def)
        then show ?thesis
        proof
          assume "updateSharedMutation client ob w = Ended (Returned ()) w"
          then show ?thesis by blast
        next
          assume e: "updateSharedMutation client ob w = Ended (Returned ()) (rebind ob None w)"
          have "\<forall>m. (None :: ref option) = Some m \<longrightarrow> (\<exists>h. get client h w = Found m)"
            by simp
          with e show ?thesis by blast
        qed
      next
        case (Found m)
        then have "updateSharedMutation client ob w = Ended (Returned ()) w \<or>
            updateSharedMutation client ob w = Ended (Returned ()) (rebind ob (Some m) w)"
          using assms flag Some key by (simp add: updateSharedMutation_def)
        then show ?thesis
        proof
          assume "updateSharedMutation client ob w = Ended (Returned ()) w"
          then show ?thesis by blast
        next
          assume e: "updateSharedMutation client ob w = Ended (Returned ()) (rebind ob (Some m) w)"
          have "\<forall>m0. Some m = Some m0 \<longrightarrow> (\<exists>h. get client h w = Found m0)"
            using Found by blast
          with e show ?thesis by blast
        qed
      next
        case Null_found
        then have e: "updateSharedMutation client ob w = Ended (Returned ()) (rebind ob None w)"
          using assms flag Some key by (simp add: updateSharedMutation_def)
        have "\<forall>m. (None :: ref option) = Some m \<longrightarrow> (\<exists>h. get client h w = Found m)"
          by simp
        with e show ?thesis by blast
      next
        case Foreign
        then have "updateSharedMutation client ob w = Escaped TypeError"
          using assms flag Some key by (simp add: updateSharedMutation_def)
        then show ?thesis using Some Foreign by simp
      qed
    qed
  qed
qed

lemma updateSharedMutation_kept:
  assumes "registered w" and "index_valid w" and "ob < length (observer_heap w)"
    and "options (observer_heap w ! ob) = Some opts"
  shows "case updateSharedMutation client ob w of
           Ended r w' \<Rightarrow> registered w' \<and> index_valid w' \<and> let_go_together ob w w'
         | Escaped e \<Rightarrow>
             e = TypeError \<and>
             \<not> (mutationsMap_proto (cache w) = None \<and> plain_options client opts)"
  using updateSharedMutation_cases [OF assms(4), of client]
proof (elim disjE exE conjE)
  fix k
  assume e: "updateSharedMutation client ob w = Escaped TypeError"
    and k: "mutationKey opts = Some k"
    and f: "get client (hashMutationKeyByOptions client k opts) w = Foreign"
  have "\<not> (mutationsMap_proto (cache w) = None \<and> plain_options client opts)"
    using get_plain [of w "hashMutationKeyByOptions client k opts" client] f k
    by (auto simp: plain_options_def)
  then show ?thesis by (simp add: e)
next
  fix r
  assume "updateSharedMutation client ob w = Ended r w"
  then show ?thesis using assms by (simp add: let_go_together_same)
next
  fix m'
  assume g: "\<forall>m. m' = Some m \<longrightarrow> (\<exists>h. get client h w = Found m)"
    and e: "updateSharedMutation client ob w = Ended (Returned ()) (rebind ob m' w)"
  have "\<And>m. m' = Some m \<Longrightarrow> m < length (heap w)"
    using g index_validD [OF assms(2)] by blast
  from rebind_kept [OF assms(1) assms(2) assms(3) this]
  show ?thesis by (simp add: e)
qed

lemma store_options_registered:
  assumes "registered w" and "index_valid w"
  shows "registered (update_observer ob (\<lambda>this. this\<lparr>options := x\<rparr>) w) \<and>
         index_valid (update_observer ob (\<lambda>this. this\<lparr>options := x\<rparr>) w)"
proof
  show "registered (update_observer ob (\<lambda>this. this\<lparr>options := x\<rparr>) w)"
  proof (rule registeredI)
    fix ob' m
    assume "ob' < length (observer_heap (update_observer ob (\<lambda>this. this\<lparr>options := x\<rparr>) w))"
      and "currentMutation (observer_heap (update_observer ob (\<lambda>this. this\<lparr>options := x\<rparr>) w) ! ob') = Some m"
    then have "ob' < length (observer_heap w)" and "currentMutation (observer_heap w ! ob') = Some m"
      by (simp_all add: update_observer_def nth_list_update_in split: if_splits)
    from registeredD [OF assms(1) this]
    show "m < length (heap (update_observer ob (\<lambda>this. this\<lparr>options := x\<rparr>) w)) \<and>
          ob' \<in> set (observers_m (heap (update_observer ob (\<lambda>this. this\<lparr>options := x\<rparr>) w) ! m))"
      by (simp add: update_observer_def)
  qed
  show "index_valid (update_observer ob (\<lambda>this. this\<lparr>options := x\<rparr>) w)"
    using assms(2) by (rule index_valid_cong) (simp_all add: update_observer_def)
qed

lemma setOptions_cases:
  "setOptions client ob opts w =
     Ended (Threw ShareableChanged)
       (update_observer ob (\<lambda>this. this\<lparr>options := Some (defaultMutationOptions client opts)\<rparr>) w) \<or>
   setOptions client ob opts w =
     updateSharedMutation client ob
       (update_observer ob (\<lambda>this. this\<lparr>options := Some (defaultMutationOptions client opts)\<rparr>) w)"
  by (simp add: setOptions_def Let_def split: option.splits)

lemma setOptions_kept:
  assumes "registered w" and "index_valid w" and "ob < length (observer_heap w)"
  shows "case setOptions client ob opts w of
           Ended r w' \<Rightarrow> registered w' \<and> index_valid w' \<and> let_go_together ob w w'
         | Escaped e \<Rightarrow>
             e = TypeError \<and>
             \<not> (mutationsMap_proto (cache w) = None \<and>
                plain_options client (defaultMutationOptions client opts))"
proof -
  let ?w1 = "update_observer ob (\<lambda>this. this\<lparr>options := Some (defaultMutationOptions client opts)\<rparr>) w"
  have s: "registered ?w1" "index_valid ?w1"
    using store_options_registered [OF assms(1) assms(2)] by simp_all
  have l: "ob < length (observer_heap ?w1)"
    using assms(3) by (simp add: update_observer_def)
  have o: "options (observer_heap ?w1 ! ob) = Some (defaultMutationOptions client opts)"
    using assms(3) by (simp add: update_observer_def)
  have c: "currentMutation (observer_heap ?w1 ! ob) = currentMutation (observer_heap w ! ob)"
    using assms(3) by (simp add: update_observer_def)
  have p: "mutationsMap_proto (cache ?w1) = mutationsMap_proto (cache w)"
    by (simp add: update_observer_def)
  from setOptions_cases [of client ob opts w] show ?thesis
  proof
    assume "setOptions client ob opts w = Ended (Threw ShareableChanged) ?w1"
    then show ?thesis using s c by (simp add: let_go_together_same)
  next
    assume e: "setOptions client ob opts w = updateSharedMutation client ob ?w1"
    from updateSharedMutation_kept [OF s l o, of client]
    show ?thesis
      unfolding e by (simp add: p let_go_together_def c split: ending.splits)
  qed
qed

lemma alist_update_set:
  "(h, m) \<in> set (AList.update k v al) \<Longrightarrow> (h, m) = (k, v) \<or> (h, m) \<in> set al"
  by (induction al) (auto split: if_splits)

lemma mutate_index_valid:
  assumes "index_valid w" and "ob < length (observer_heap w)"
    and "options (observer_heap w ! ob) = Some opts"
  shows "index_valid (snd (mutate client ob vars callOptions w))"
proof -
  note e = mutate_eq [OF assms(2) assms(3), of client vars callOptions]
  have old: "\<And>h m. (h, m) \<in> set (mutationsMap (cache w)) \<Longrightarrow> m < length (heap w) + 1"
    using assms(1) by (fastforce simp: index_valid_def)
  have proto: "\<And>p. mutationsMap_proto (cache w) = Some p \<Longrightarrow> p < length (heap w) + 1"
    using assms(1) by (fastforce simp: index_valid_def)
  have a: "\<forall>(h, m) \<in> set (mutationsMap (cache (snd (mutate client ob vars callOptions w)))).
             m < length (heap w) + 1"
    unfolding e(10)
    by (auto split: option.splits if_splits dest!: alist_update_set dest: old)
  have b: "case mutationsMap_proto (cache (snd (mutate client ob vars callOptions w))) of
             None \<Rightarrow> True | Some p \<Rightarrow> p < length (heap w) + 1"
    unfolding e(11)
    by (auto split: option.splits if_splits dest: proto)
  have l: "length (heap (snd (mutate client ob vars callOptions w))) = length (heap w) + 1"
    by (simp add: e(3) detached_heap_length)
  show ?thesis
    unfolding index_valid_def l using a b by simp
qed

lemma mutate_registered:
  assumes "registered w" and "index_valid w" and "ob < length (observer_heap w)"
    and "options (observer_heap w ! ob) = Some opts"
  shows "registered (snd (mutate client ob vars callOptions w)) \<and>
         index_valid (snd (mutate client ob vars callOptions w))"
proof
  note e = mutate_eq [OF assms(3) assms(4), of client vars callOptions]
  show "registered (snd (mutate client ob vars callOptions w))"
  proof (rule registeredI)
    fix ob' m
    assume lt: "ob' < length (observer_heap (snd (mutate client ob vars callOptions w)))"
      and cm: "currentMutation (observer_heap (snd (mutate client ob vars callOptions w)) ! ob') = Some m"
    have lt': "ob' < length (observer_heap w)" using lt by (simp add: e(4))
    show "m < length (heap (snd (mutate client ob vars callOptions w))) \<and>
          ob' \<in> set (observers_m (heap (snd (mutate client ob vars callOptions w)) ! m))"
    proof (cases "ob' = ob")
      case True
      then have "m = length (heap w)" using cm assms(3) by (simp add: e(4))
      then show ?thesis using True by (simp add: e(3) detached_heap_length nth_append)
    next
      case False
      then have "currentMutation (observer_heap w ! ob') = Some m" using cm by (simp add: e(4))
      from registeredD [OF assms(1) lt' this] False
      show ?thesis by (simp add: e(3) detached_heap_length nth_append detached_heap_other)
    qed
  qed
  show "index_valid (snd (mutate client ob vars callOptions w))"
    using assms(2) assms(3) assms(4) by (rule mutate_index_valid)
qed

lemma reset_proj:
  assumes "ob < length (observer_heap w)"
  shows "heap (reset ob w) = heap w"
    and "cache (reset ob w) = cache w"
    and "observer_heap (reset ob w) =
           (observer_heap w)[ob := (observer_heap w ! ob)
              \<lparr>currentMutation := None, currentResult := result_of ob getDefaultState\<rparr>]"
    and "trace (reset ob w) =
           trace w @ listener_calls ob (listeners (observer_heap w ! ob)) (result_of ob getDefaultState)"
  using assms
  by (simp_all add: reset_def Let_def notify_eq updateResult_eq update_observer_def
        derived_result_def split: option.splits)

lemma reset_registered:
  assumes "registered w" and "index_valid w" and "ob < length (observer_heap w)"
  shows "registered (reset ob w) \<and> index_valid (reset ob w)"
proof
  note p = reset_proj [OF assms(3)]
  show "registered (reset ob w)"
  proof (rule registeredI)
    fix ob' m
    assume "ob' < length (observer_heap (reset ob w))"
      and "currentMutation (observer_heap (reset ob w) ! ob') = Some m"
    then have "ob' < length (observer_heap w)" and "currentMutation (observer_heap w ! ob') = Some m"
      by (simp_all add: p(3) nth_list_update_in split: if_splits)
    from registeredD [OF assms(1) this]
    show "m < length (heap (reset ob w)) \<and> ob' \<in> set (observers_m (heap (reset ob w) ! m))"
      by (simp add: p(1))
  qed
  show "index_valid (reset ob w)"
    using assms(2) by (rule index_valid_cong) (simp_all add: p)
qed

lemma onUnsubscribe_eq:
  "onUnsubscribe ob w =
     (if listeners (observer_heap w ! ob) = [] then w\<lparr>heap := detached_heap ob w\<rparr> else w)"
  by (simp add: onUnsubscribe_def removeObserver_current_eq)

lemma onUnsubscribe_others:
  assumes "registered w" and "ob' < length (observer_heap w)" and "ob' \<noteq> ob"
  shows "registered_at (onUnsubscribe ob w) ob'"
proof (cases "currentMutation (observer_heap w ! ob')")
  case None
  then show ?thesis by (simp add: registered_at_def onUnsubscribe_eq)
next
  case (Some m)
  from registeredD [OF assms(1) assms(2) Some] assms(3) Some
  show ?thesis
    by (simp add: registered_at_def onUnsubscribe_eq detached_heap_length detached_heap_other)
qed

lemma world_kj_eq:
  "world_kj =
     \<lparr>cache = \<lparr>mutations = [0, 1], mutationsMap = [(''k'', 0), (''j'', 1)], mutationId_c = 2,
               listeners_c = [0], mutationsMap_proto = None\<rparr>,
      heap = [new_Mutation 1 (Some ''k'') shareable_k None None,
              new_Mutation 2 (Some ''j'') shareable_j None None], observer_heap = [],
      transactions = 0, flushes = 2, trace = [CacheListener 0 (Some 0), CacheListener 0 (Some 1)]\<rparr>"
  by (simp add: world_kj_def world_k1_eq build_def Let_def add_def cache_notify_eq update_cache_def
        hash_for_build_def shareable_j_def client0_def mutationsMap_set_def numeral_2_eq_2)

lemma kj_observer_constructed:
  "new_MutationObserver client0 shareable_k world_kj =
     Ended (Returned 0)
     \<lparr>cache = \<lparr>mutations = [0, 1], mutationsMap = [(''k'', 0), (''j'', 1)], mutationId_c = 2,
               listeners_c = [0], mutationsMap_proto = None\<rparr>,
      heap = [(new_Mutation 1 (Some ''k'') shareable_k None None)\<lparr>observers_m := [0]\<rparr>,
              new_Mutation 2 (Some ''j'') shareable_j None None],
      observer_heap =
        [\<lparr>options = Some shareable_k, currentResult = result_of 0 getDefaultState,
          currentMutation = Some 0, mutateOptions = None, listeners = []\<rparr>],
      transactions = 0, flushes = 2, trace = [CacheListener 0 (Some 0), CacheListener 0 (Some 1)]\<rparr>"
  unfolding world_kj_eq
  by (simp add: new_MutationObserver_def setOptions_def
        updateSharedMutation_def rebind_def update_observer_def updateResult_def get_def
        removeObserver_current_def addObserver_current_def addObserver_def update_mutation_def
        client0_def shareable_k_def new_Mutation_def Let_def)

lemma world_rebuilt_eq:
  "world_rebuilt =
     \<lparr>cache = \<lparr>mutations = [0, 1, 2], mutationsMap = [(''k'', 2), (''j'', 1)], mutationId_c = 3,
               listeners_c = [0], mutationsMap_proto = None\<rparr>,
      heap = [(new_Mutation 1 (Some ''k'') shareable_k None None)\<lparr>observers_m := [0]\<rparr>,
              new_Mutation 2 (Some ''j'') shareable_j None None,
              new_Mutation 3 (Some ''k'') shareable_k None None],
      observer_heap =
        [\<lparr>options = Some shareable_k, currentResult = result_of 0 getDefaultState,
          currentMutation = Some 0, mutateOptions = None, listeners = []\<rparr>],
      transactions = 0, flushes = 3,
      trace = [CacheListener 0 (Some 0), CacheListener 0 (Some 1), CacheListener 0 (Some 2)]\<rparr>"
  unfolding world_rebuilt_def world_kj_bound_def kj_observer_constructed
  by (simp add: build_def Let_def add_def cache_notify_eq update_cache_def
        hash_for_build_def shareable_k_def client0_def mutationsMap_set_def numeral_2_eq_2
        numeral_3_eq_3)

lemma world_rebuilt_ok:
  "registered world_rebuilt" "index_valid world_rebuilt"
  "0 < length (observer_heap world_rebuilt)"
  "options (observer_heap world_rebuilt ! 0) = Some shareable_k"
  by (simp_all add: world_rebuilt_eq registered_def registered_at_def index_valid_def)

lemma world_rebuilt_get:
  "get client0 ''k'' world_rebuilt = Found 2" "get client0 ''j'' world_rebuilt = Found 1"
  by (simp_all add: world_rebuilt_eq get_def)

lemma rebuilt_update_call:
  "updateSharedMutation client0 0 world_rebuilt = Ended (Returned ()) (rebind 0 (Some 2) world_rebuilt)"
proof -
  have "options (observer_heap world_rebuilt ! 0) = Some shareable_k"
    "currentMutation (observer_heap world_rebuilt ! 0) = Some 0"
    by (simp_all add: world_rebuilt_eq)
  moreover have "hashMutationKeyByOptions client0 (KeyString ''k'') shareable_k = ''k''"
    by (simp add: client0_def)
  ultimately show ?thesis
    by (simp add: updateSharedMutation_def world_rebuilt_get shareable_k_def)
qed

lemma rebuilt_setOptions_call:
  "setOptions client0 0 (Some shareable_j) world_rebuilt =
     Ended (Returned ())
       (rebind 0 (Some 1)
          (update_observer 0 (\<lambda>this. this\<lparr>options := Some shareable_j\<rparr>) world_rebuilt))"
proof -
  let ?w1 = "update_observer 0 (\<lambda>this. this\<lparr>options := Some shareable_j\<rparr>) world_rebuilt"
  have d: "defaultMutationOptions client0 (Some shareable_j) = shareable_j"
    by (simp add: client0_def)
  have o: "options (observer_heap world_rebuilt ! 0) = Some shareable_k"
    by (simp add: world_rebuilt_eq)
  have s: "shareable shareable_k = shareable shareable_j"
    by (simp add: shareable_k_def shareable_j_def)
  have e: "setOptions client0 0 (Some shareable_j) world_rebuilt = updateSharedMutation client0 0 ?w1"
    by (simp add: setOptions_def Let_def d o s)
  have "options (observer_heap ?w1 ! 0) = Some shareable_j"
    "currentMutation (observer_heap ?w1 ! 0) = Some 0"
    by (simp_all add: world_rebuilt_eq update_observer_def)
  moreover have "hashMutationKeyByOptions client0 (KeyString ''j'') shareable_j = ''j''"
    by (simp add: client0_def)
  moreover have "get client0 ''j'' ?w1 = Found 1"
    by (simp add: world_rebuilt_eq update_observer_def get_def)
  ultimately show ?thesis
    unfolding e by (simp add: updateSharedMutation_def shareable_j_def)
qed

lemma world_rebound_k_proj:
  "currentMutation (observer_heap world_rebound_k ! 0) = Some 2"
  "observers_m (heap world_rebound_k ! 0) = []"
  "observers_m (heap world_rebound_k ! 2) = [0]"
  unfolding world_rebound_k_def rebuilt_update_call ended_world.simps option.sel
    rebind_proj [OF world_rebuilt_ok(3)]
  by (simp_all add: rebound_heap_def detached_heap_def world_rebuilt_eq new_Mutation_def)

lemma world_rebound_j_proj:
  "currentMutation (observer_heap world_rebound_j ! 0) = Some 1"
  "options (observer_heap world_rebound_j ! 0) = Some shareable_j"
  "observers_m (heap world_rebound_j ! 0) = []"
  "observers_m (heap world_rebound_j ! 1) = [0]"
proof -
  let ?w1 = "update_observer 0 (\<lambda>this. this\<lparr>options := Some shareable_j\<rparr>) world_rebuilt"
  have l: "0 < length (observer_heap ?w1)"
    by (simp add: update_observer_def world_rebuilt_eq)
  note p = rebind_proj [OF l, of "Some 1"]
  have w: "world_rebound_j = rebind 0 (Some 1) ?w1"
    by (simp add: world_rebound_j_def rebuilt_setOptions_call)
  show "currentMutation (observer_heap world_rebound_j ! 0) = Some 1"
    and "options (observer_heap world_rebound_j ! 0) = Some shareable_j"
    and "observers_m (heap world_rebound_j ! 0) = []"
    and "observers_m (heap world_rebound_j ! 1) = [0]"
    unfolding w p
    by (simp_all add: rebound_heap_def detached_heap_def update_observer_def
          world_rebuilt_eq new_Mutation_def)
qed

text \<open>
  C6, as the code has it. \<^verbatim>\<open>setOptions\<close>, \<^verbatim>\<open>updateSharedMutation\<close>, \<^verbatim>\<open>mutate\<close> and
  \<^verbatim>\<open>reset\<close> keep the invariant that every observer holding a reference to a Mutation is
  in that Mutation's observer set; and when \<^verbatim>\<open>setOptions\<close>, \<^verbatim>\<open>updateSharedMutation\<close> or
  \<^verbatim>\<open>mutate\<close> lets go of the Mutation the observer was bound to, the observer is out of
  that Mutation's observer set as well. For \<^verbatim>\<open>setOptions\<close> and \<^verbatim>\<open>updateSharedMutation\<close>
  this is said of every call that returns or throws a configuration error. The one other
  way these two end is the TypeError thrown when the lookup in the hash index yields a
  value that is no Mutation, which the observer then holds in place of one; it takes a
  hash that is a name of \<^verbatim>\<open>Object.prototype\<close>, or an index whose prototype has been
  replaced through the hash \<^verbatim>\<open>__proto__\<close>. \<^verbatim>\<open>onUnsubscribe\<close> is different by design: with
  listeners left it does nothing; with none left it takes the observer out of the
  Mutation's observer set and keeps the reference, which touches no other observer.
\<close>

theorem binding_invariant_kept:
  assumes "registered w" and "index_valid w" and "ob < length (observer_heap w)"
    and "options (observer_heap w ! ob) = Some opts"
  shows "(case setOptions client ob new_opts w of
            Ended r w' \<Rightarrow> registered w' \<and> index_valid w' \<and> let_go_together ob w w'
          | Escaped e \<Rightarrow>
              e = TypeError \<and>
              \<not> (mutationsMap_proto (cache w) = None \<and>
                 plain_options client (defaultMutationOptions client new_opts))) \<and>
         (case updateSharedMutation client ob w of
            Ended r w' \<Rightarrow> registered w' \<and> index_valid w' \<and> let_go_together ob w w'
          | Escaped e \<Rightarrow>
              e = TypeError \<and>
              \<not> (mutationsMap_proto (cache w) = None \<and> plain_options client opts)) \<and>
         registered (snd (mutate client ob vars callOptions w)) \<and>
         index_valid (snd (mutate client ob vars callOptions w)) \<and>
         registered (reset ob w) \<and> index_valid (reset ob w) \<and>
         (\<forall>m0. currentMutation (observer_heap w ! ob) = Some m0 \<longrightarrow>
            currentMutation (observer_heap (snd (mutate client ob vars callOptions w)) ! ob) \<noteq> Some m0 \<and>
            ob \<notin> set (observers_m (heap (snd (mutate client ob vars callOptions w)) ! m0)) \<and>
            (listeners (observer_heap w ! ob) = [] \<longrightarrow>
               currentMutation (observer_heap (onUnsubscribe ob w) ! ob) = Some m0 \<and>
               ob \<notin> set (observers_m (heap (onUnsubscribe ob w) ! m0)))) \<and>
         (listeners (observer_heap w ! ob) \<noteq> [] \<longrightarrow> onUnsubscribe ob w = w) \<and>
         (\<forall>ob' \<in> set [0..<length (observer_heap w)]. ob' \<noteq> ob \<longrightarrow> registered_at (onUnsubscribe ob w) ob')"
proof -
  note e = mutate_eq [OF assms(3) assms(4), of client vars callOptions]
  have unbind: "currentMutation (observer_heap (snd (mutate client ob vars callOptions w)) ! ob) \<noteq> Some m0 \<and>
      ob \<notin> set (observers_m (heap (snd (mutate client ob vars callOptions w)) ! m0)) \<and>
      (listeners (observer_heap w ! ob) = [] \<longrightarrow>
         currentMutation (observer_heap (onUnsubscribe ob w) ! ob) = Some m0 \<and>
         ob \<notin> set (observers_m (heap (onUnsubscribe ob w) ! m0)))"
    if c: "currentMutation (observer_heap w ! ob) = Some m0" for m0
  proof -
    have m0: "m0 < length (heap w)"
      using registeredD [OF assms(1) assms(3) c] by simp
    show ?thesis
      using m0 c assms(3)
      by (simp add: e(3) e(4) nth_append detached_heap_length detached_heap_self onUnsubscribe_eq)
  qed
  show ?thesis
    using setOptions_kept [OF assms(1) assms(2) assms(3), of client new_opts]
      updateSharedMutation_kept [OF assms, of client]
      mutate_registered [OF assms, of client vars callOptions]
      reset_registered [OF assms(1) assms(2) assms(3)]
      unbind onUnsubscribe_others [OF assms(1)]
    by (simp add: onUnsubscribe_eq)
qed

theorem binding_invariant_kept_witness:
  "registered world_rebuilt \<and> index_valid world_rebuilt \<and>
   0 < length (observer_heap world_rebuilt) \<and>
   options (observer_heap world_rebuilt ! 0) = Some shareable_k \<and>
   currentMutation (observer_heap world_rebuilt ! 0) = Some 0 \<and>
   listeners (observer_heap world_rebuilt ! 0) = [] \<and>
   get client0 ''k'' world_rebuilt = Found 2 \<and> get client0 ''j'' world_rebuilt = Found 1 \<and>
   updateSharedMutation client0 0 world_rebuilt = Ended (Returned ()) world_rebound_k \<and>
   currentMutation (observer_heap world_rebound_k ! 0) = Some 2 \<and>
   0 \<notin> set (observers_m (heap world_rebound_k ! 0)) \<and>
   0 \<in> set (observers_m (heap world_rebound_k ! 2)) \<and>
   registered world_rebound_k \<and> index_valid world_rebound_k \<and>
   setOptions client0 0 (Some shareable_j) world_rebuilt = Ended (Returned ()) world_rebound_j \<and>
   currentMutation (observer_heap world_rebound_j ! 0) = Some 1 \<and>
   0 \<notin> set (observers_m (heap world_rebound_j ! 0)) \<and>
   0 \<in> set (observers_m (heap world_rebound_j ! 1)) \<and>
   registered world_rebound_j \<and> index_valid world_rebound_j \<and>
   registered (snd (mutate client0 0 Undefined None world_rebuilt)) \<and>
   index_valid (snd (mutate client0 0 Undefined None world_rebuilt)) \<and>
   currentMutation (observer_heap (snd (mutate client0 0 Undefined None world_rebuilt)) ! 0) \<noteq> Some 0 \<and>
   0 \<notin> set (observers_m (heap (snd (mutate client0 0 Undefined None world_rebuilt)) ! 0)) \<and>
   registered (reset 0 world_rebuilt) \<and>
   currentMutation (observer_heap (onUnsubscribe 0 world_rebuilt) ! 0) = Some 0 \<and>
   0 \<notin> set (observers_m (heap (onUnsubscribe 0 world_rebuilt) ! 0))"
proof -
  have w: "currentMutation (observer_heap world_rebuilt ! 0) = Some 0"
    "listeners (observer_heap world_rebuilt ! 0) = []"
    by (simp_all add: world_rebuilt_eq)
  have k: "updateSharedMutation client0 0 world_rebuilt = Ended (Returned ()) world_rebound_k"
    by (simp add: world_rebound_k_def rebuilt_update_call)
  have j: "setOptions client0 0 (Some shareable_j) world_rebuilt = Ended (Returned ()) world_rebound_j"
    by (simp add: world_rebound_j_def rebuilt_setOptions_call)
  from binding_invariant_kept [OF world_rebuilt_ok, of client0 "Some shareable_j" Undefined None]
  show ?thesis
    using world_rebuilt_ok world_rebound_k_proj world_rebound_j_proj
    by (simp add: w k j world_rebuilt_get)
qed

text \<open>
  C6 as the spec states it fails: observer 0 is bound to Mutation 0 and registered with
  it; once its only listener has unsubscribed, it still holds the reference but is no
  longer in the observer set of Mutation 0.
\<close>

theorem onUnsubscribe_breaks_binding_counterexample:
  "registered world_observed \<and> listeners (observer_heap world_observed ! 0) = [7] \<and>
   world_unsubscribed = unsubscribe 0 7 world_observed \<and>
   currentMutation (observer_heap world_unsubscribed ! 0) = Some 0 \<and>
   0 \<notin> set (observers_m (heap world_unsubscribed ! 0)) \<and>
   \<not> registered world_unsubscribed"
  by (simp add: world_unsubscribed_def world_observed_eq unsubscribe_def onUnsubscribe_eq
        update_observer_def detached_heap_def registered_def registered_at_def)

end
